theory Spec2Isabelle
  imports Complex_Main
begin

section \<open>The model abstraction layer of OpenDataApi\<close>

text \<open>
  A shallow embedding of the notebook \<^verbatim>\<open>src/OpenDataApi.ipynb\<close>: the abstract class
  \<^verbatim>\<open>Model\<close> with its registry, the three sk-learn adapters and the two torch training
  mixins. Python objects are records, exceptions are the left summand of a sum type,
  and what the notebook imports from numpy, sk-learn and torch is either written out
  from the library's documented behaviour (the dummy estimators, arg-max, unique,
  reshape) or taken as a parameter (the wrapped estimator, the network, the optimiser,
  the loss primitives, the random draws). Tensors hold reals; rounding to 32-bit floats
  is not modelled.
\<close>

subsection \<open>Exceptions\<close>

datatype py_error =
  ValueError | TypeError | IndexError | ZeroDivisionError | RuntimeError | StopIteration

type_synonym matrix = "real list list"

subsection \<open>The registry of \<^verbatim>\<open>Model\<close> subclasses\<close>

text \<open>
  A class object is its \<^verbatim>\<open>__name__\<close> and an identity (two class statements with the
  same name create two classes). \<^verbatim>\<open>Models\<close> is one dictionary, a class attribute of
  \<^verbatim>\<open>Model\<close>, so every subclass sees the same object: the model threads it through the
  class statements as they execute.
\<close>

datatype model_class = ModelClass (cls_name: string) (cls_id: nat)

type_synonym registry = "string \<rightharpoonup> model_class"

text \<open>\<^verbatim>\<open>str.lower()\<close> on the ASCII letters (identifiers outside ASCII are not modelled).\<close>

definition lower_char :: "char \<Rightarrow> char" where
  "lower_char c =
     (let n = (of_char c :: nat)
      in if 65 \<le> n \<and> n \<le> 90 then char_of (n + 32) else c)"

definition lower :: "string \<Rightarrow> string" where
  "lower s = map lower_char s"

text \<open>
  \<^verbatim>\<open>__init_subclass__\<close>, line 32: \<^verbatim>\<open>cls.Models[cls.__name__.lower()] = cls\<close>. The call to
  \<^verbatim>\<open>super().__init_subclass__\<close> reaches \<^verbatim>\<open>object\<close> and does nothing.
\<close>

definition init_subclass :: "registry \<Rightarrow> model_class \<Rightarrow> registry" where
  "init_subclass Models cls = Models(lower (cls_name cls) \<mapsto> cls)"

text \<open>A run of class statements, each one calling the hook when its class is created.\<close>

fun define_classes :: "registry \<Rightarrow> model_class list \<Rightarrow> registry" where
  "define_classes Models [] = Models"
| "define_classes Models (cls # rest) = define_classes (init_subclass Models cls) rest"

text \<open>The subclasses the notebook defines, in the order of its class statements.\<close>

definition notebook_classes :: "model_class list" where
  "notebook_classes =
     [ModelClass ''TorchModel'' 0,
      ModelClass ''TorchClassMixin'' 1,
      ModelClass ''TorchRegressMixin'' 2,
      ModelClass ''TorchPredictMixin'' 3,
      ModelClass ''ClassifierSkLearnWrapper'' 4,
      ModelClass ''ClassifierUnweightedSkLearnWrapper'' 5,
      ModelClass ''RegressionSkLearnWrapper'' 6]"

subsection \<open>Raising and sequencing\<close>

text \<open>A statement after a call that raised is not run: \<open>bind_err\<close> is the semicolon.\<close>

definition bind_err :: "py_error + 'a \<Rightarrow> ('a \<Rightarrow> py_error + 'b) \<Rightarrow> py_error + 'b" where
  "bind_err r f = (case r of Inl e \<Rightarrow> Inl e | Inr v \<Rightarrow> f v)"

subsection \<open>The weighted sample container\<close>

text \<open>
  Modelled from the spec: the class \<^verbatim>\<open>CatDataset\<close>, imported from
  \<^verbatim>\<open>opendataval.dataloader.util\<close> at line 22 and not part of the notebook. The spec
  (Weighted Sample Container, sections 2, 6 and 7) gives it covariates, labels and
  optional per-row weights, has it produce a fixed-length sequence of aligned tuples and
  report its length, and has mismatched row counts raised by it at once. An argument that
  is \<^verbatim>\<open>None\<close> is left out of the tuples. The weights hold one scalar per row.
\<close>

record cat_dataset =
  ds_x :: matrix
  ds_y :: matrix
  ds_w :: "real list option"

definition CatDataset :: "matrix \<Rightarrow> matrix \<Rightarrow> real list option \<Rightarrow> py_error + cat_dataset" where
  "CatDataset x y sw =
     (if length y = length x \<and> (case sw of None \<Rightarrow> True | Some w \<Rightarrow> length w = length x)
      then Inr \<lparr>ds_x = x, ds_y = y, ds_w = sw\<rparr>
      else Inl ValueError)"

definition len_dataset :: "cat_dataset \<Rightarrow> nat" where
  "len_dataset d = length (ds_x d)"

subsection \<open>numpy: arg-max, unique, reshape\<close>

text \<open>\<^verbatim>\<open>np.argmax\<close> returns the first index of the largest entry and raises on an empty row.\<close>

fun argmax_scan :: "nat \<Rightarrow> real \<Rightarrow> nat \<Rightarrow> real list \<Rightarrow> nat" where
  "argmax_scan best bv i [] = best"
| "argmax_scan best bv i (a # r) =
     (if bv < a then argmax_scan i a (Suc i) r else argmax_scan best bv (Suc i) r)"

definition argmax :: "real list \<Rightarrow> py_error + nat" where
  "argmax r = (case r of [] \<Rightarrow> Inl ValueError | a # rest \<Rightarrow> Inr (argmax_scan 0 a 1 rest))"

text \<open>\<^verbatim>\<open>np.argmax(y_train, axis=1)\<close>: one index per row.\<close>

fun argmax_axis1 :: "matrix \<Rightarrow> py_error + nat list" where
  "argmax_axis1 [] = Inr []"
| "argmax_axis1 (r # rs) =
     bind_err (argmax r) (\<lambda>i. bind_err (argmax_axis1 rs) (\<lambda>js. Inr (i # js)))"

text \<open>\<^verbatim>\<open>np.unique\<close>: the distinct entries, sorted.\<close>

definition unique :: "nat list \<Rightarrow> nat list" where
  "unique ys = sort (remdups ys)"

text \<open>
  An array of one or two axes, and \<^verbatim>\<open>.reshape(-1, k)\<close> on it: the entries in row-major
  order cut into rows of \<open>k\<close>; numpy raises when the size is not a multiple of \<open>k\<close>.
\<close>

datatype ndarray = Array1 "real list" | Array2 matrix

definition flatten :: "ndarray \<Rightarrow> real list" where
  "flatten a = (case a of Array1 v \<Rightarrow> v | Array2 m \<Rightarrow> concat m)"

definition reshape_rows :: "nat \<Rightarrow> ndarray \<Rightarrow> py_error + matrix" where
  "reshape_rows k a =
     (let v = flatten a
      in if 0 < k \<and> length v mod k = 0
         then Inr (map (\<lambda>i. take k (drop (i * k) v)) [0..<length v div k])
         else Inl ValueError)"

subsection \<open>sk-learn: the dummy estimators\<close>

text \<open>
  \<^verbatim>\<open>sklearn.dummy.DummyClassifier\<close> for the two strategies the notebook uses,
  \<^verbatim>\<open>strategy="constant", constant=c\<close> and \<^verbatim>\<open>strategy="most_frequent"\<close>, written from
  the library's documented behaviour with one output column of labels. \<^verbatim>\<open>fit\<close> reads
  only the length of \<open>X\<close>; it stores the sorted distinct labels (\<^verbatim>\<open>classes_\<close>), their
  weighted relative frequencies (\<^verbatim>\<open>class_prior_\<close>) and their number (\<^verbatim>\<open>n_classes_\<close>),
  and the constant strategy raises when its constant is not among the labels.
\<close>

datatype dummy_strategy = Constant nat | MostFrequent

record dummy_classifier =
  dc_strategy :: dummy_strategy
  dc_classes :: "nat list"
  dc_class_prior :: "real list"
  dc_n_classes :: nat

definition class_distribution :: "nat list \<Rightarrow> real list option \<Rightarrow> nat list \<times> real list" where
  "class_distribution y sw =
     (let classes = unique y;
          w = (case sw of None \<Rightarrow> replicate (length y) 1 | Some w \<Rightarrow> w);
          counts = map (\<lambda>c. sum_list (map snd (filter (\<lambda>lw. fst lw = c) (zip y w)))) classes
      in (classes, map (\<lambda>c. c / sum_list counts) counts))"

definition DummyClassifier_fit ::
  "dummy_strategy \<Rightarrow> matrix \<Rightarrow> nat list \<Rightarrow> real list option \<Rightarrow> py_error + dummy_classifier" where
  "DummyClassifier_fit strat X y sw =
     (if length X = length y \<and> (case sw of None \<Rightarrow> True | Some w \<Rightarrow> length w = length X)
      then
        (let (classes, prior) = class_distribution y sw
         in if (case strat of Constant c \<Rightarrow> c \<in> set classes | MostFrequent \<Rightarrow> True)
            then Inr \<lparr>dc_strategy = strat, dc_classes = classes, dc_class_prior = prior,
                      dc_n_classes = length classes\<rparr>
            else Inl ValueError)
      else Inl ValueError)"

text \<open>
  \<^verbatim>\<open>predict_proba\<close>: a matrix of zeros with one row per row of \<open>X\<close> and \<^verbatim>\<open>n_classes_\<close>
  columns, in which \<^verbatim>\<open>out[:, ind] = 1.0\<close> sets one column: the position of the largest
  prior (most frequent), or the positions of the constant among \<^verbatim>\<open>classes_\<close>. The
  assignment raises when the column does not exist.
\<close>

definition positions :: "nat \<Rightarrow> nat list \<Rightarrow> nat list" where
  "positions c cs = filter (\<lambda>i. cs ! i = c) [0..<length cs]"

definition set_columns :: "nat list \<Rightarrow> real list \<Rightarrow> py_error + real list" where
  "set_columns inds row =
     (if list_all (\<lambda>i. i < length row) inds
      then Inr (fold (\<lambda>i r. r[i := 1]) inds row)
      else Inl IndexError)"

definition DummyClassifier_predict_proba :: "dummy_classifier \<Rightarrow> matrix \<Rightarrow> py_error + matrix" where
  "DummyClassifier_predict_proba dc X =
     bind_err
       (case dc_strategy dc of
          MostFrequent \<Rightarrow> bind_err (argmax (dc_class_prior dc)) (\<lambda>ind. Inr [ind])
        | Constant c \<Rightarrow> Inr (positions c (dc_classes dc)))
       (\<lambda>inds. bind_err (set_columns inds (replicate (dc_n_classes dc) 0))
          (\<lambda>row. Inr (replicate (length X) row)))"

text \<open>
  \<^verbatim>\<open>sklearn.dummy.DummyRegressor(strategy="mean")\<close>: \<^verbatim>\<open>fit\<close> stores the weighted mean
  of each label column (\<^verbatim>\<open>np.average\<close>, which raises when the weights sum to zero), and
  \<^verbatim>\<open>predict\<close> repeats it for every row of \<open>X\<close>, flattened when there is one column.
\<close>

record dummy_regressor =
  dr_constant :: "real list"

definition DummyRegressor_fit ::
  "matrix \<Rightarrow> matrix \<Rightarrow> real list option \<Rightarrow> py_error + dummy_regressor" where
  "DummyRegressor_fit X y sw =
     (case y of
        [] \<Rightarrow> Inl ValueError
      | r # _ \<Rightarrow>
          if r \<noteq> [] \<and> length X = length y
             \<and> (case sw of None \<Rightarrow> True | Some w \<Rightarrow> length w = length X)
          then
            (let w = (case sw of None \<Rightarrow> replicate (length y) 1 | Some w \<Rightarrow> w)
             in if sum_list w = 0 then Inl ZeroDivisionError
                else Inr \<lparr>dr_constant =
                       map (\<lambda>j. sum_list (map2 (\<lambda>row wi. wi * row ! j) y w) / sum_list w)
                         [0..<length r]\<rparr>)
          else Inl ValueError)"

definition DummyRegressor_predict :: "dummy_regressor \<Rightarrow> matrix \<Rightarrow> ndarray" where
  "DummyRegressor_predict dr X =
     (case dr_constant dr of
        [c] \<Rightarrow> Array1 (replicate (length X) c)
      | cs \<Rightarrow> Array2 (replicate (length X) cs))"

subsection \<open>The wrapped estimator\<close>

text \<open>
  \<^verbatim>\<open>base_model\<close> is any sk-learn estimator class. Its state is the type parameter
  \<open>'e\<close> and its methods are a record of functions that may raise; the positional and
  keyword arguments that \<^verbatim>\<open>fit\<close> forwards (\<^verbatim>\<open>*args, **kwargs\<close>) are fixed inside
  that record. The keyword \<^verbatim>\<open>sample_weight\<close> is either not written in the call or
  written with a value, which may be \<^verbatim>\<open>None\<close>.
\<close>

datatype sw_arg = NotPassed | Passed "real list option"

text \<open>
  \<^verbatim>\<open>np.squeeze\<close> drops every axis of length one, so the weights of a single row become
  a 0-dimensional array and the weights of any other number of rows a 1-dimensional one.
\<close>

datatype squeezed = Scalar real | Vector "real list"

definition squeeze :: "real list \<Rightarrow> squeezed" where
  "squeeze w = (case w of [v] \<Rightarrow> Scalar v | _ \<Rightarrow> Vector w)"

definition squeezed_div :: "squeezed \<Rightarrow> real \<Rightarrow> squeezed" where
  "squeezed_div a d = (case a of Scalar v \<Rightarrow> Scalar (v / d) | Vector q \<Rightarrow> Vector (map (\<lambda>v. v / d) q))"

text \<open>
  What an adapter writes for the keyword \<^verbatim>\<open>sample_weight\<close> when it calls
  \<^verbatim>\<open>self.model.fit\<close>: nothing, \<^verbatim>\<open>None\<close>, or the squeezed weights. Every sk-learn
  estimator validates the weights it is given with \<^verbatim>\<open>check_array\<close>, which raises
  \<^verbatim>\<open>TypeError\<close> on a 0-dimensional array; a 1-dimensional one reaches the estimator.
\<close>

datatype sw_keyword = Omitted | Given "squeezed option"

definition check_sample_weight :: "sw_keyword \<Rightarrow> py_error + sw_arg" where
  "check_sample_weight k =
     (case k of
        Omitted \<Rightarrow> Inr NotPassed
      | Given None \<Rightarrow> Inr (Passed None)
      | Given (Some (Vector w)) \<Rightarrow> Inr (Passed (Some w))
      | Given (Some (Scalar v)) \<Rightarrow> Inl TypeError)"

record 'e sk_classifier =
  est_fit :: "'e \<Rightarrow> matrix \<Rightarrow> nat list \<Rightarrow> sw_arg \<Rightarrow> py_error + 'e"
  est_predict_proba :: "'e \<Rightarrow> matrix \<Rightarrow> py_error + matrix"

record 'e sk_regressor =
  est_fit_reg :: "'e \<Rightarrow> matrix \<Rightarrow> matrix \<Rightarrow> sw_arg \<Rightarrow> py_error + 'e"
  est_predict :: "'e \<Rightarrow> matrix \<Rightarrow> py_error + ndarray"

text \<open>
  The attribute \<^verbatim>\<open>self.model\<close> holds the wrapped estimator or, once a fallback was
  taken, the dummy that replaced it; \<^verbatim>\<open>self.model.fit\<close> and
  \<^verbatim>\<open>self.model.predict_proba\<close> go to whichever object is there.
\<close>

datatype 'e clf_model = Wrapped 'e | Dummy dummy_classifier

datatype 'e reg_model = WrappedReg 'e | DummyReg dummy_regressor

definition sw_value :: "sw_arg \<Rightarrow> real list option" where
  "sw_value a = (case a of NotPassed \<Rightarrow> None | Passed w \<Rightarrow> w)"

definition model_fit ::
  "'e sk_classifier \<Rightarrow> 'e clf_model \<Rightarrow> matrix \<Rightarrow> nat list \<Rightarrow> sw_keyword
     \<Rightarrow> py_error + 'e clf_model" where
  "model_fit ops m X y k =
     bind_err (check_sample_weight k) (\<lambda>sw.
       case m of
         Wrapped e \<Rightarrow> bind_err (est_fit ops e X y sw) (\<lambda>e'. Inr (Wrapped e'))
       | Dummy dc \<Rightarrow>
           bind_err (DummyClassifier_fit (dc_strategy dc) X y (sw_value sw))
             (\<lambda>dc'. Inr (Dummy dc')))"

definition model_predict_proba ::
  "'e sk_classifier \<Rightarrow> 'e clf_model \<Rightarrow> matrix \<Rightarrow> py_error + matrix" where
  "model_predict_proba ops m X =
     (case m of
        Wrapped e \<Rightarrow> est_predict_proba ops e X
      | Dummy dc \<Rightarrow> DummyClassifier_predict_proba dc X)"

definition model_fit_reg ::
  "'e sk_regressor \<Rightarrow> 'e reg_model \<Rightarrow> matrix \<Rightarrow> matrix \<Rightarrow> sw_keyword
     \<Rightarrow> py_error + 'e reg_model" where
  "model_fit_reg ops m X y k =
     bind_err (check_sample_weight k) (\<lambda>sw.
       case m of
         WrappedReg e \<Rightarrow> bind_err (est_fit_reg ops e X y sw) (\<lambda>e'. Inr (WrappedReg e'))
       | DummyReg dr \<Rightarrow>
           bind_err (DummyRegressor_fit X y (sw_value sw)) (\<lambda>dr'. Inr (DummyReg dr')))"

definition model_predict ::
  "'e sk_regressor \<Rightarrow> 'e reg_model \<Rightarrow> matrix \<Rightarrow> py_error + ndarray" where
  "model_predict ops m X =
     (case m of
        WrappedReg e \<Rightarrow> est_predict ops e X
      | DummyReg dr \<Rightarrow> Inr (DummyRegressor_predict dr X))"

text \<open>
  What a \<^verbatim>\<open>fit\<close> does to the attribute: \<^verbatim>\<open>self.model = ...\<close> binds it to a new
  object, \<^verbatim>\<open>self.model.fit(...)\<close> changes the object it refers to.
\<close>

datatype 'm assignment = Replaced 'm | InPlace 'm

definition assigned :: "'m assignment \<Rightarrow> 'm" where
  "assigned u = (case u of Replaced m \<Rightarrow> m | InPlace m \<Rightarrow> m)"

definition take_rows :: "'a list \<Rightarrow> nat list \<Rightarrow> py_error + 'a list" where
  "take_rows xs idx =
     (if list_all (\<lambda>i. i < length xs) idx then Inr (map (\<lambda>i. xs ! i) idx) else Inl IndexError)"

text \<open>
  \<^verbatim>\<open>np.random.choice(n, size=n, replace=True, p=p)\<close>: it takes \<^verbatim>\<open>len(p)\<close>, which
  raises \<^verbatim>\<open>TypeError\<close> on a 0-dimensional \<open>p\<close>; it raises \<^verbatim>\<open>ValueError\<close> unless \<open>p\<close>
  has \<open>n\<close> non-negative entries that sum to one (a zero sum of weights makes every
  entry NaN in numpy and zero here: refused both ways); otherwise it returns the
  indices it drew, which the model takes as the argument \<open>drawn\<close>.
\<close>

definition random_choice :: "nat \<Rightarrow> squeezed \<Rightarrow> nat list \<Rightarrow> py_error + nat list" where
  "random_choice n p drawn =
     (case p of
        Scalar _ \<Rightarrow> Inl TypeError
      | Vector q \<Rightarrow>
          if length q = n \<and> list_all (\<lambda>v. 0 \<le> v) q \<and> sum_list q = 1
          then Inr drawn else Inl ValueError)"

subsection \<open>\<^verbatim>\<open>ClassifierSkLearnWrapper\<close>\<close>

record 'e classifier_wrapper =
  model :: "'e clf_model"
  num_classes :: nat

text \<open>\<^verbatim>\<open>__init__\<close>, line 283; \<open>e\<close> is \<^verbatim>\<open>base_model(*args, **kwargs)\<close>.\<close>

definition ClassifierSkLearnWrapper :: "'e \<Rightarrow> nat \<Rightarrow> 'e classifier_wrapper" where
  "ClassifierSkLearnWrapper e n = \<lparr>model = Wrapped e, num_classes = n\<rparr>"

text \<open>
  \<^verbatim>\<open>fit\<close>, lines 287 to 344. The loader with \<^verbatim>\<open>batch_size=num_samples\<close> yields the whole
  data set as its first batch, and the estimator is handed the squeezed weights.
\<close>

definition ClassifierSkLearnWrapper_fit_model ::
  "'e sk_classifier \<Rightarrow> 'e classifier_wrapper \<Rightarrow> matrix \<Rightarrow> matrix \<Rightarrow> real list option
     \<Rightarrow> py_error + 'e clf_model assignment" where
  "ClassifierSkLearnWrapper_fit_model ops self x_train y_train sample_weight =
     bind_err (CatDataset x_train y_train sample_weight) (\<lambda>dataset.
       let num_samples = len_dataset dataset
       in if num_samples = 0
          then bind_err (DummyClassifier_fit (Constant 0) [[0]] [0] None) (\<lambda>dc.
                 Inr (Replaced (Dummy (dc\<lparr>dc_n_classes := num_classes self\<rparr>))))
          else bind_err (argmax_axis1 (ds_y dataset)) (\<lambda>y.
                 let y_train_unique = unique y
                 in if length y_train_unique \<noteq> num_classes self
                    then bind_err (DummyClassifier_fit MostFrequent (ds_x dataset) y None) (\<lambda>dc.
                           Inr (Replaced (Dummy (dc\<lparr>dc_n_classes := num_classes self\<rparr>))))
                    else (case sample_weight of
                            Some _ \<Rightarrow>
                              bind_err (model_fit ops (model self) (ds_x dataset) y
                                          (Given (map_option squeeze (ds_w dataset))))
                                (\<lambda>m. Inr (InPlace m))
                          | None \<Rightarrow>
                              bind_err (model_fit ops (model self) (ds_x dataset) y (Given None))
                                (\<lambda>m. Inr (InPlace m)))))"

definition ClassifierSkLearnWrapper_fit ::
  "'e sk_classifier \<Rightarrow> 'e classifier_wrapper \<Rightarrow> matrix \<Rightarrow> matrix \<Rightarrow> real list option
     \<Rightarrow> py_error + 'e classifier_wrapper" where
  "ClassifierSkLearnWrapper_fit ops self x_train y_train sample_weight =
     bind_err (ClassifierSkLearnWrapper_fit_model ops self x_train y_train sample_weight)
       (\<lambda>u. Inr (self\<lparr>model := assigned u\<rparr>))"

text \<open>
  \<^verbatim>\<open>predict\<close>, lines 346 to 370, on an input already collected into one batch; the
  conversion to a float tensor keeps the entries.
\<close>

definition ClassifierSkLearnWrapper_predict ::
  "'e sk_classifier \<Rightarrow> 'e classifier_wrapper \<Rightarrow> matrix \<Rightarrow> py_error + matrix" where
  "ClassifierSkLearnWrapper_predict ops self x = model_predict_proba ops (model self) x"

subsection \<open>\<^verbatim>\<open>ClassifierUnweightedSkLearnWrapper\<close>\<close>

text \<open>
  \<^verbatim>\<open>fit\<close>, lines 388 to 449; \<^verbatim>\<open>__init__\<close> and \<^verbatim>\<open>predict\<close> are inherited. With weights
  the estimator is fitted on the rows at the drawn indices, and never receives a
  \<^verbatim>\<open>sample_weight\<close> keyword.
\<close>

definition ClassifierUnweightedSkLearnWrapper_fit_model ::
  "'e sk_classifier \<Rightarrow> nat list \<Rightarrow> 'e classifier_wrapper \<Rightarrow> matrix \<Rightarrow> matrix \<Rightarrow> real list option
     \<Rightarrow> py_error + 'e clf_model assignment" where
  "ClassifierUnweightedSkLearnWrapper_fit_model ops drawn self x_train y_train sample_weight =
     bind_err (CatDataset x_train y_train None) (\<lambda>unweighted.
       let num_samples = len_dataset unweighted
       in bind_err (CatDataset x_train y_train sample_weight) (\<lambda>dataset.
            if num_samples = 0
            then bind_err (DummyClassifier_fit (Constant 0) [[0]] [0] None) (\<lambda>dc.
                   Inr (Replaced (Dummy (dc\<lparr>dc_n_classes := num_classes self\<rparr>))))
            else bind_err (argmax_axis1 (ds_y dataset)) (\<lambda>y.
                   let y_train_unique = unique y
                   in if length y_train_unique \<noteq> num_classes self
                      then bind_err (DummyClassifier_fit MostFrequent (ds_x dataset) y None) (\<lambda>dc.
                             Inr (Replaced (Dummy (dc\<lparr>dc_n_classes := num_classes self\<rparr>))))
                      else (case ds_w dataset of
                              Some w \<Rightarrow>
                                bind_err (random_choice num_samples
                                            (squeezed_div (squeeze w) (sum_list w)) drawn)
                                  (\<lambda>indices.
                                bind_err (take_rows (ds_x dataset) indices) (\<lambda>xs.
                                bind_err (take_rows y indices) (\<lambda>ys.
                                bind_err (model_fit ops (model self) xs ys Omitted)
                                  (\<lambda>m. Inr (InPlace m)))))
                            | None \<Rightarrow>
                                bind_err (model_fit ops (model self) (ds_x dataset) y Omitted)
                                  (\<lambda>m. Inr (InPlace m))))))"

definition ClassifierUnweightedSkLearnWrapper_fit ::
  "'e sk_classifier \<Rightarrow> nat list \<Rightarrow> 'e classifier_wrapper \<Rightarrow> matrix \<Rightarrow> matrix \<Rightarrow> real list option
     \<Rightarrow> py_error + 'e classifier_wrapper" where
  "ClassifierUnweightedSkLearnWrapper_fit ops drawn self x_train y_train sample_weight =
     bind_err
       (ClassifierUnweightedSkLearnWrapper_fit_model ops drawn self x_train y_train sample_weight)
       (\<lambda>u. Inr (self\<lparr>model := assigned u\<rparr>))"

subsection \<open>\<^verbatim>\<open>RegressionSkLearnWrapper\<close>\<close>

record 'e regression_wrapper =
  model_r :: "'e reg_model"
  num_classes_r :: nat

text \<open>\<^verbatim>\<open>__init__\<close>, line 465: the label width is 1 unless a subclass changes it.\<close>

definition RegressionSkLearnWrapper :: "'e \<Rightarrow> 'e regression_wrapper" where
  "RegressionSkLearnWrapper e = \<lparr>model_r = WrappedReg e, num_classes_r = 1\<rparr>"

text \<open>\<^verbatim>\<open>fit\<close>, lines 469 to 520.\<close>

definition RegressionSkLearnWrapper_fit_model ::
  "'e sk_regressor \<Rightarrow> 'e regression_wrapper \<Rightarrow> matrix \<Rightarrow> matrix \<Rightarrow> real list option
     \<Rightarrow> py_error + 'e reg_model assignment" where
  "RegressionSkLearnWrapper_fit_model ops self x_train y_train sample_weight =
     bind_err (CatDataset x_train y_train sample_weight) (\<lambda>dataset.
       let num_samples = len_dataset dataset
       in if num_samples = 0
          then (let constant_return = [replicate (num_classes_r self) 0]
                in bind_err (DummyRegressor_fit [[0]] constant_return None) (\<lambda>dr.
                     Inr (Replaced (DummyReg dr))))
          else (case sample_weight of
                  Some _ \<Rightarrow>
                    bind_err (model_fit_reg ops (model_r self) (ds_x dataset) (ds_y dataset)
                                (Given (map_option squeeze (ds_w dataset))))
                      (\<lambda>m. Inr (InPlace m))
                | None \<Rightarrow>
                    bind_err (model_fit_reg ops (model_r self) (ds_x dataset) (ds_y dataset)
                                (Given None))
                      (\<lambda>m. Inr (InPlace m))))"

definition RegressionSkLearnWrapper_fit ::
  "'e sk_regressor \<Rightarrow> 'e regression_wrapper \<Rightarrow> matrix \<Rightarrow> matrix \<Rightarrow> real list option
     \<Rightarrow> py_error + 'e regression_wrapper" where
  "RegressionSkLearnWrapper_fit ops self x_train y_train sample_weight =
     bind_err (RegressionSkLearnWrapper_fit_model ops self x_train y_train sample_weight)
       (\<lambda>u. Inr (self\<lparr>model_r := assigned u\<rparr>))"

text \<open>\<^verbatim>\<open>predict\<close>, lines 522 to 545.\<close>

definition RegressionSkLearnWrapper_predict ::
  "'e sk_regressor \<Rightarrow> 'e regression_wrapper \<Rightarrow> matrix \<Rightarrow> py_error + matrix" where
  "RegressionSkLearnWrapper_predict ops self x =
     bind_err (model_predict ops (model_r self) x) (\<lambda>output.
       reshape_rows (num_classes_r self) output)"

subsection \<open>Gradient-trained predictors\<close>

text \<open>
  A torch module is its learnable parameters (the type parameter \<open>'p\<close>), the mode flag
  that \<^verbatim>\<open>self.train()\<close> and \<^verbatim>\<open>self.eval()\<close> set, and the attribute \<^verbatim>\<open>num_classes\<close>
  that the classification mixin reads.
\<close>

record 'p torch_model =
  parameters :: 'p
  training :: bool
  num_classes_t :: nat

datatype criterion = binary_cross_entropy | cross_entropy | mse_loss

datatype reduction = ReductionNone | ReductionMean

text \<open>
  What torch provides and the notebook does not fix is a record of functions: the
  optimiser's constructor, which may refuse its arguments; the device of the first
  parameter, which the property \<^verbatim>\<open>device\<close> of line 104 reads and which raises
  \<^verbatim>\<open>StopIteration\<close> when there is no parameter; the forward pass \<^verbatim>\<open>self.__call__\<close> in
  the given mode; the binary cross-entropy of one output and one target; the
  cross-entropy of one row of outputs and one row of target probabilities; and
  \<^verbatim>\<open>loss.backward()\<close> followed by \<^verbatim>\<open>optimizer.step()\<close>, which from the optimiser's
  state, the loss as a function of the parameters and the current parameters gives the
  next state and parameters.
\<close>

record ('p, 'o) torch_lib =
  Adam :: "'p \<Rightarrow> real \<Rightarrow> py_error + 'o"
  device :: "'p \<Rightarrow> py_error + nat"
  forward :: "'p \<Rightarrow> bool \<Rightarrow> matrix \<Rightarrow> py_error + matrix"
  bce :: "real \<Rightarrow> real \<Rightarrow> real"
  ce :: "real list \<Rightarrow> real list \<Rightarrow> real"
  backward_step :: "'o \<Rightarrow> ('p \<Rightarrow> py_error + real) \<Rightarrow> 'p \<Rightarrow> 'o \<times> 'p"

text \<open>
  Tensors of losses have no, one or two axes. An operation on two tensors of different
  shapes broadcasts: the shapes are aligned at the last axis, and an axis must have the
  same length in both or length one in one of them, otherwise torch raises
  \<^verbatim>\<open>RuntimeError\<close>.
\<close>

datatype tensor = Tensor0 real | Tensor1 "real list" | Tensor2 matrix

definition broadcast_row ::
  "(real \<Rightarrow> real \<Rightarrow> real) \<Rightarrow> real list \<Rightarrow> real list \<Rightarrow> py_error + real list" where
  "broadcast_row f r s =
     (if length r = length s then Inr (map2 f r s)
      else if length s = 1 then Inr (map (\<lambda>v. f v (hd s)) r)
      else if length r = 1 then Inr (map (\<lambda>v. f (hd r) v) s)
      else Inl RuntimeError)"

fun map_err :: "('a \<Rightarrow> py_error + 'b) \<Rightarrow> 'a list \<Rightarrow> py_error + 'b list" where
  "map_err f [] = Inr []"
| "map_err f (a # as) = bind_err (f a) (\<lambda>b. bind_err (map_err f as) (\<lambda>bs. Inr (b # bs)))"

definition broadcast_matrix ::
  "(real \<Rightarrow> real \<Rightarrow> real) \<Rightarrow> matrix \<Rightarrow> matrix \<Rightarrow> py_error + matrix" where
  "broadcast_matrix f m n =
     (if length m = length n then map_err (\<lambda>rs. broadcast_row f (fst rs) (snd rs)) (zip m n)
      else if length n = 1 then map_err (\<lambda>r. broadcast_row f r (hd n)) m
      else if length m = 1 then map_err (\<lambda>s. broadcast_row f (hd m) s) n
      else Inl RuntimeError)"

text \<open>
  \<^verbatim>\<open>loss * weights[0]\<close>: the weights of a batch are a tensor of one axis, one entry per
  row of the batch.
\<close>

definition times_weights :: "tensor \<Rightarrow> real list \<Rightarrow> py_error + tensor" where
  "times_weights loss w =
     (case loss of
        Tensor0 v \<Rightarrow> Inr (Tensor1 (map (\<lambda>u. v * u) w))
      | Tensor1 l \<Rightarrow> bind_err (broadcast_row (*) l w) (\<lambda>r. Inr (Tensor1 r))
      | Tensor2 m \<Rightarrow>
          bind_err (map_err (\<lambda>r. broadcast_row (*) r w) m) (\<lambda>rs. Inr (Tensor2 rs)))"

text \<open>\<^verbatim>\<open>.mean()\<close>: the mean of all entries.\<close>

definition tensor_mean :: "tensor \<Rightarrow> real" where
  "tensor_mean t =
     (case t of
        Tensor0 v \<Rightarrow> v
      | Tensor1 l \<Rightarrow> sum_list l / real (length l)
      | Tensor2 m \<Rightarrow> sum_list (concat m) / real (length (concat m)))"

text \<open>
  The three criteria with \<^verbatim>\<open>reduction="none"\<close>. \<^verbatim>\<open>F.binary_cross_entropy\<close> raises
  \<^verbatim>\<open>ValueError\<close> when outputs and targets differ in shape and \<^verbatim>\<open>RuntimeError\<close> when an
  output is outside the unit interval, and returns one loss for every entry: a tensor
  of the shape of the outputs. \<^verbatim>\<open>F.cross_entropy\<close> on targets that are class
  probabilities returns one loss for every row. \<^verbatim>\<open>F.mse_loss\<close> broadcasts outputs and
  targets and returns the squared difference of every entry. With
  \<^verbatim>\<open>reduction="mean"\<close> each returns the mean of that tensor.
\<close>

definition criterion_none ::
  "('p, 'o) torch_lib \<Rightarrow> criterion \<Rightarrow> matrix \<Rightarrow> matrix \<Rightarrow> py_error + tensor" where
  "criterion_none lib crit outputs y =
     (case crit of
        binary_cross_entropy \<Rightarrow>
          if map length outputs = map length y
          then (if list_all (list_all (\<lambda>v. 0 \<le> v \<and> v \<le> 1)) outputs
                then Inr (Tensor2 (map2 (map2 (bce lib)) outputs y))
                else Inl RuntimeError)
          else Inl ValueError
      | cross_entropy \<Rightarrow>
          if map length outputs = map length y
          then Inr (Tensor1 (map2 (ce lib) outputs y))
          else Inl RuntimeError
      | mse_loss \<Rightarrow>
          bind_err (broadcast_matrix (\<lambda>a b. (a - b) * (a - b)) outputs y)
            (\<lambda>m. Inr (Tensor2 m)))"

definition apply_criterion ::
  "('p, 'o) torch_lib \<Rightarrow> criterion \<Rightarrow> matrix \<Rightarrow> matrix \<Rightarrow> reduction \<Rightarrow> py_error + tensor" where
  "apply_criterion lib crit outputs y red =
     bind_err (criterion_none lib crit outputs y) (\<lambda>t.
       case red of
         ReductionNone \<Rightarrow> Inr t
       | ReductionMean \<Rightarrow> Inr (Tensor0 (tensor_mean t)))"

text \<open>\<^verbatim>\<open>int(epochs)\<close> truncates a float towards zero; \<^verbatim>\<open>range\<close> of it is empty when it
  is not positive.\<close>

datatype py_num = PyInt int | PyFloat real

definition py_int :: "py_num \<Rightarrow> int" where
  "py_int v = (case v of PyInt n \<Rightarrow> n | PyFloat r \<Rightarrow> (if 0 \<le> r then \<lfloor>r\<rfloor> else \<lceil>r\<rceil>))"

definition py_range :: "int \<Rightarrow> nat list" where
  "py_range n = [0..<nat n]"

text \<open>
  \<^verbatim>\<open>DataLoader(dataset, batch_size, shuffle=True)\<close>: it refuses a batch size that is not
  positive; its sampler draws an order of the row indices, which the model takes as an
  argument, and the rows are handed out in that order, \<open>batch_size\<close> at a time, the
  last batch possibly shorter. A batch holds the covariates, the labels and, when the
  data set has weights, the weights of its rows.
\<close>

type_synonym batch = "matrix \<times> matrix \<times> real list option"

definition chunks :: "nat \<Rightarrow> 'a list \<Rightarrow> 'a list list" where
  "chunks k xs = map (\<lambda>i. take k (drop (i * k) xs)) [0..<(length xs + k - 1) div k]"

definition batch_of :: "cat_dataset \<Rightarrow> nat list \<Rightarrow> batch" where
  "batch_of d idx =
     (map (\<lambda>i. ds_x d ! i) idx, map (\<lambda>i. ds_y d ! i) idx,
      map_option (\<lambda>w. map (\<lambda>i. w ! i) idx) (ds_w d))"

definition DataLoader :: "cat_dataset \<Rightarrow> int \<Rightarrow> nat list \<Rightarrow> py_error + batch list" where
  "DataLoader dataset batch_size order =
     (if batch_size \<le> 0 then Inl ValueError
      else if list_all (\<lambda>i. i < len_dataset dataset) order
      then Inr (map (batch_of dataset) (chunks (nat batch_size) order))
      else Inl IndexError)"

text \<open>
  The loss of one batch as a function of the parameters, lines 152 to 163 (and 217 to
  228): the batch is moved to the device of the module, then comes the forward pass in
  training mode, then the criterion with \<^verbatim>\<open>reduction="none"\<close> times the weights of the
  batch and the mean of that, or the criterion with \<^verbatim>\<open>reduction="mean"\<close>.
  \<^verbatim>\<open>weights[0]\<close> raises on a batch without weights.
\<close>

definition batch_loss ::
  "('p, 'o) torch_lib \<Rightarrow> criterion \<Rightarrow> real list option \<Rightarrow> batch \<Rightarrow> 'p \<Rightarrow> py_error + real" where
  "batch_loss lib crit sample_weight b p =
     (case b of (x_batch, y_batch, weights) \<Rightarrow>
        bind_err (device lib p) (\<lambda>_.
          bind_err (forward lib p True x_batch) (\<lambda>outputs.
            case sample_weight of
              Some _ \<Rightarrow>
                bind_err (apply_criterion lib crit outputs y_batch ReductionNone) (\<lambda>loss.
                  case weights of
                    Some w \<Rightarrow>
                      bind_err (times_weights loss w) (\<lambda>weighted. Inr (tensor_mean weighted))
                  | None \<Rightarrow> Inl IndexError)
            | None \<Rightarrow>
                bind_err (apply_criterion lib crit outputs y_batch ReductionMean) (\<lambda>loss.
                  Inr (tensor_mean loss)))))"

text \<open>The inner loop over the batches of one epoch and the outer loop over the epochs.\<close>

fun train_batches ::
  "('p, 'o) torch_lib \<Rightarrow> (batch \<Rightarrow> 'p \<Rightarrow> py_error + real) \<Rightarrow> batch list \<Rightarrow> 'o \<times> 'p
     \<Rightarrow> py_error + 'o \<times> 'p" where
  "train_batches lib loss [] s = Inr s"
| "train_batches lib loss (b # bs) s =
     bind_err (loss b (snd s)) (\<lambda>_.
       train_batches lib loss bs (backward_step lib (fst s) (loss b) (snd s)))"

fun train_epochs ::
  "('p, 'o) torch_lib \<Rightarrow> (batch \<Rightarrow> 'p \<Rightarrow> py_error + real) \<Rightarrow> (nat \<Rightarrow> py_error + batch list)
     \<Rightarrow> nat list \<Rightarrow> 'o \<times> 'p \<Rightarrow> py_error + 'o \<times> 'p" where
  "train_epochs lib loss loader [] s = Inr s"
| "train_epochs lib loss loader (k # ks) s =
     bind_err (loader k) (\<lambda>batches.
       bind_err (train_batches lib loss batches s) (\<lambda>s'.
         train_epochs lib loss loader ks s'))"

text \<open>Line 142.\<close>

definition class_criterion :: "nat \<Rightarrow> criterion" where
  "class_criterion n = (if n = 2 then binary_cross_entropy else cross_entropy)"

text \<open>
  \<^verbatim>\<open>TorchClassMixin.fit\<close>, lines 111 to 168. \<open>shuffle k\<close> is the order the loader of
  epoch \<open>k\<close> draws.
\<close>

definition TorchClassMixin_fit ::
  "('p, 'o) torch_lib \<Rightarrow> (nat \<Rightarrow> nat list) \<Rightarrow> 'p torch_model \<Rightarrow> matrix \<Rightarrow> matrix
     \<Rightarrow> real list option \<Rightarrow> int \<Rightarrow> py_num \<Rightarrow> real \<Rightarrow> py_error + 'p torch_model" where
  "TorchClassMixin_fit lib shuffle self x_train y_train sample_weight batch_size epochs lr =
     bind_err (Adam lib (parameters self) lr) (\<lambda>optimizer.
       let criterion = class_criterion (num_classes_t self)
       in bind_err (CatDataset x_train y_train sample_weight) (\<lambda>dataset.
            bind_err
              (train_epochs lib (batch_loss lib criterion sample_weight)
                 (\<lambda>k. DataLoader dataset batch_size (shuffle k))
                 (py_range (py_int epochs)) (optimizer, parameters self))
              (\<lambda>s. Inr (self\<lparr>parameters := snd s, training := True\<rparr>))))"

text \<open>\<^verbatim>\<open>TorchRegressMixin.fit\<close>, lines 174 to 233.\<close>

definition TorchRegressMixin_fit ::
  "('p, 'o) torch_lib \<Rightarrow> (nat \<Rightarrow> nat list) \<Rightarrow> 'p torch_model \<Rightarrow> matrix \<Rightarrow> matrix
     \<Rightarrow> real list option \<Rightarrow> int \<Rightarrow> py_num \<Rightarrow> real \<Rightarrow> py_error + 'p torch_model" where
  "TorchRegressMixin_fit lib shuffle self x_train y_train sample_weight batch_size epochs lr =
     bind_err (Adam lib (parameters self) lr) (\<lambda>optimizer.
       let criterion = mse_loss
       in bind_err (CatDataset x_train y_train sample_weight) (\<lambda>dataset.
            bind_err
              (train_epochs lib (batch_loss lib criterion sample_weight)
                 (\<lambda>k. DataLoader dataset batch_size (shuffle k))
                 (py_range (py_int epochs)) (optimizer, parameters self))
              (\<lambda>s. Inr (self\<lparr>parameters := snd s, training := True\<rparr>))))"

text \<open>
  \<^verbatim>\<open>TorchPredictMixin.predict\<close>, lines 239 to 260, on an input already collected into one
  batch: the input is moved to the device of the module, the module is put in evaluation
  mode and the forward pass is returned.
\<close>

definition TorchPredictMixin_predict ::
  "('p, 'o) torch_lib \<Rightarrow> 'p torch_model \<Rightarrow> matrix \<Rightarrow> py_error + matrix \<times> 'p torch_model" where
  "TorchPredictMixin_predict lib self x =
     bind_err (device lib (parameters self)) (\<lambda>_.
       bind_err (forward lib (parameters self) False x) (\<lambda>y_hat.
         Inr (y_hat, self\<lparr>training := False\<rparr>)))"

text \<open>
  The weighted loss as the docstring of \<^verbatim>\<open>fit\<close> and the comment at line 159 describe
  it, for comparison with \<open>batch_loss\<close>: the losses of a batch are a matrix with one
  row per sample; every entry is multiplied by the weight of its sample, and the mean is
  taken over all entries.
\<close>

definition row_weighted_mean :: "matrix \<Rightarrow> real list \<Rightarrow> real" where
  "row_weighted_mean losses w =
     sum_list (concat (map2 (\<lambda>l wi. map (\<lambda>v. v * wi) l) losses w))
       / real (length (concat losses))"

text \<open>
  A small instance of the library for evaluating properties: one parameter that scales
  the input, an optimiser that refuses a negative learning rate, counts its steps and
  moves the parameter down by the loss, and squared differences in the place of the
  two cross-entropies.
\<close>

definition toy_torch :: "(real, nat) torch_lib" where
  "toy_torch =
     \<lparr>Adam = (\<lambda>p lr. if lr < 0 then Inl ValueError else Inr 0),
      device = (\<lambda>p. Inr 0),
      forward = (\<lambda>p mode x. Inr (map (map (\<lambda>v. p * v)) x)),
      bce = (\<lambda>a b. (a - b) * (a - b)),
      ce = (\<lambda>r t. sum_list (map2 (\<lambda>a b. (a - b) * (a - b)) r t)),
      backward_step = (\<lambda>n f p. (Suc n, case f p of Inl _ \<Rightarrow> p | Inr l \<Rightarrow> p - l))\<rparr>"

subsection \<open>Keyword arguments of \<^verbatim>\<open>fit\<close>\<close>

text \<open>
  A call \<^verbatim>\<open>model.fit(x_train, y_train, name=w)\<close> binds \<^verbatim>\<open>self\<close>, \<^verbatim>\<open>x_train\<close> and
  \<^verbatim>\<open>y_train\<close> by position and one tensor by keyword. Python raises \<^verbatim>\<open>TypeError\<close> when
  the keyword names a parameter that is bound already, binds it when it names another
  parameter, puts it into \<^verbatim>\<open>**kwargs\<close> when the signature has one, and raises
  \<^verbatim>\<open>TypeError\<close> otherwise. The result is the parameters bound by keyword and the
  contents of \<^verbatim>\<open>**kwargs\<close>.
\<close>

record fit_signature =
  positional :: "string list"
  keyword_params :: "string list"
  var_keywords :: bool

definition bind_keyword ::
  "fit_signature \<Rightarrow> string \<Rightarrow> 'v \<Rightarrow> py_error + (string \<times> 'v) list \<times> (string \<times> 'v) list" where
  "bind_keyword sg name v =
     (if name \<in> set (positional sg) then Inl TypeError
      else if name \<in> set (keyword_params sg) then Inr ([(name, v)], [])
      else if var_keywords sg then Inr ([], [(name, v)])
      else Inl TypeError)"

text \<open>The signatures as written at lines 38, 111, 174, 287, 388 and 469.\<close>

definition Model_fit_signature :: fit_signature where
  "Model_fit_signature =
     \<lparr>positional = [''self'', ''x_train'', ''y_train''], keyword_params = [''sample_weights''],
      var_keywords = True\<rparr>"

definition TorchClassMixin_fit_signature :: fit_signature where
  "TorchClassMixin_fit_signature =
     \<lparr>positional = [''self'', ''x_train'', ''y_train''],
      keyword_params = [''sample_weight'', ''batch_size'', ''epochs'', ''lr''],
      var_keywords = False\<rparr>"

definition TorchRegressMixin_fit_signature :: fit_signature where
  "TorchRegressMixin_fit_signature =
     \<lparr>positional = [''self'', ''x_train'', ''y_train''],
      keyword_params = [''sample_weight'', ''batch_size'', ''epochs'', ''lr''],
      var_keywords = False\<rparr>"

definition ClassifierSkLearnWrapper_fit_signature :: fit_signature where
  "ClassifierSkLearnWrapper_fit_signature =
     \<lparr>positional = [''self'', ''x_train'', ''y_train''], keyword_params = [''sample_weight''],
      var_keywords = True\<rparr>"

definition ClassifierUnweightedSkLearnWrapper_fit_signature :: fit_signature where
  "ClassifierUnweightedSkLearnWrapper_fit_signature =
     \<lparr>positional = [''self'', ''x_train'', ''y_train''], keyword_params = [''sample_weight''],
      var_keywords = True\<rparr>"

definition RegressionSkLearnWrapper_fit_signature :: fit_signature where
  "RegressionSkLearnWrapper_fit_signature =
     \<lparr>positional = [''self'', ''x_train'', ''y_train''], keyword_params = [''sample_weight''],
      var_keywords = True\<rparr>"

text \<open>
  The call of an adapter's \<^verbatim>\<open>fit\<close> with one keyword: the body runs with
  \<^verbatim>\<open>sample_weight\<close> bound to the tensor or left at its default \<^verbatim>\<open>None\<close>, and forwards
  \<^verbatim>\<open>**kwargs\<close> to the \<^verbatim>\<open>fit\<close> of the estimator, whose methods \<open>ops_kw\<close> gives for each
  content of \<^verbatim>\<open>**kwargs\<close>.
\<close>

definition ClassifierSkLearnWrapper_fit_call ::
  "((string \<times> real list) list \<Rightarrow> 'e sk_classifier) \<Rightarrow> 'e classifier_wrapper \<Rightarrow> matrix \<Rightarrow> matrix
     \<Rightarrow> string \<Rightarrow> real list \<Rightarrow> py_error + 'e classifier_wrapper" where
  "ClassifierSkLearnWrapper_fit_call ops_kw self x_train y_train name w =
     bind_err (bind_keyword ClassifierSkLearnWrapper_fit_signature name w) (\<lambda>bound.
       ClassifierSkLearnWrapper_fit (ops_kw (snd bound)) self x_train y_train
         (map_of (fst bound) ''sample_weight''))"

definition ClassifierUnweightedSkLearnWrapper_fit_call ::
  "((string \<times> real list) list \<Rightarrow> 'e sk_classifier) \<Rightarrow> nat list \<Rightarrow> 'e classifier_wrapper
     \<Rightarrow> matrix \<Rightarrow> matrix \<Rightarrow> string \<Rightarrow> real list \<Rightarrow> py_error + 'e classifier_wrapper" where
  "ClassifierUnweightedSkLearnWrapper_fit_call ops_kw drawn self x_train y_train name w =
     bind_err (bind_keyword ClassifierUnweightedSkLearnWrapper_fit_signature name w) (\<lambda>bound.
       ClassifierUnweightedSkLearnWrapper_fit (ops_kw (snd bound)) drawn self x_train y_train
         (map_of (fst bound) ''sample_weight''))"

definition RegressionSkLearnWrapper_fit_call ::
  "((string \<times> real list) list \<Rightarrow> 'e sk_regressor) \<Rightarrow> 'e regression_wrapper \<Rightarrow> matrix \<Rightarrow> matrix
     \<Rightarrow> string \<Rightarrow> real list \<Rightarrow> py_error + 'e regression_wrapper" where
  "RegressionSkLearnWrapper_fit_call ops_kw self x_train y_train name w =
     bind_err (bind_keyword RegressionSkLearnWrapper_fit_signature name w) (\<lambda>bound.
       RegressionSkLearnWrapper_fit (ops_kw (snd bound)) self x_train y_train
         (map_of (fst bound) ''sample_weight''))"

subsection \<open>Objects, references and \<^verbatim>\<open>clone\<close>\<close>

text \<open>
  Where aliasing matters the objects live in a store, a list of cells addressed by
  position. A model instance is a cell with the fields it holds itself (\<^verbatim>\<open>num_classes\<close>,
  the mode flag) and the address of the object that its attribute \<^verbatim>\<open>model\<close>, or its
  parameter tensors, refers to; that object is a cell of its own.
\<close>

datatype ('f, 's) cell = Instance 'f nat | Part 's

type_synonym ('f, 's) store = "('f, 's) cell list"

text \<open>Reading an instance: its fields, the address it refers to and the object there.\<close>

definition load :: "('f, 's) store \<Rightarrow> nat \<Rightarrow> py_error + 'f \<times> nat \<times> 's" where
  "load h a =
     (if a < length h
      then (case h ! a of
              Instance f r \<Rightarrow>
                (if r < length h
                 then (case h ! r of Part s \<Rightarrow> Inr (f, r, s) | Instance _ _ \<Rightarrow> Inl TypeError)
                 else Inl RuntimeError)
            | Part _ \<Rightarrow> Inl TypeError)
      else Inl RuntimeError)"

text \<open>
  \<^verbatim>\<open>copy.deepcopy\<close> of an instance: a new object for what it refers to and a new
  instance that refers to the new object. \<^verbatim>\<open>Model.clone\<close>, line 85, is that.
\<close>

definition deepcopy :: "('f, 's) store \<Rightarrow> nat \<Rightarrow> py_error + ('f, 's) store \<times> nat" where
  "deepcopy h a =
     bind_err (load h a) (\<lambda>(f, r, s).
       Inr (h @ [Part s, Instance f (length h)], Suc (length h)))"

definition clone :: "('f, 's) store \<Rightarrow> nat \<Rightarrow> py_error + ('f, 's) store \<times> nat" where
  "clone h self = deepcopy h self"

text \<open>\<^verbatim>\<open>copy.copy\<close>, for contrast: a new instance that refers to the same object.\<close>

definition shallow_copy :: "('f, 's) store \<Rightarrow> nat \<Rightarrow> py_error + ('f, 's) store \<times> nat" where
  "shallow_copy h a =
     bind_err (load h a) (\<lambda>(f, r, s). Inr (h @ [Instance f r], length h))"

text \<open>
  A method call on the instance at an address. The method is given by what it does with
  the fields and the referred object: it raises, or it returns the new fields, the
  assignment to the attribute and its result. A replacement allocates a new object and
  rebinds the attribute; a change in place overwrites the object referred to.
\<close>

definition call_at ::
  "('f \<Rightarrow> 's \<Rightarrow> py_error + 'f \<times> 's assignment \<times> 'r) \<Rightarrow> ('f, 's) store \<Rightarrow> nat
     \<Rightarrow> py_error + ('f, 's) store \<times> 'r" where
  "call_at method h a =
     bind_err (load h a) (\<lambda>(f, r, s).
       bind_err (method f s) (\<lambda>(f', u, out).
         case u of
           Replaced s' \<Rightarrow> Inr (h[a := Instance f' (length h)] @ [Part s'], out)
         | InPlace s' \<Rightarrow> Inr (h[r := Part s', a := Instance f' r], out)))"

definition returned :: "py_error + ('f, 's) store \<times> 'r \<Rightarrow> py_error + 'r" where
  "returned res = bind_err res (\<lambda>hr. Inr (snd hr))"

text \<open>What a method can see of an instance: its fields and the object it refers to.\<close>

definition view :: "('f, 's) store \<Rightarrow> nat \<Rightarrow> py_error + 'f \<times> 's" where
  "view h a = bind_err (load h a) (\<lambda>(f, r, s). Inr (f, s))"

text \<open>The methods of the notebook's classes in that form.\<close>

definition classifier_fit_method ::
  "'e sk_classifier \<Rightarrow> matrix \<Rightarrow> matrix \<Rightarrow> real list option
     \<Rightarrow> nat \<Rightarrow> 'e clf_model \<Rightarrow> py_error + nat \<times> 'e clf_model assignment \<times> unit" where
  "classifier_fit_method ops x_train y_train sample_weight n m =
     bind_err
       (ClassifierSkLearnWrapper_fit_model ops \<lparr>model = m, num_classes = n\<rparr>
          x_train y_train sample_weight)
       (\<lambda>u. Inr (n, u, ()))"

definition unweighted_fit_method ::
  "'e sk_classifier \<Rightarrow> nat list \<Rightarrow> matrix \<Rightarrow> matrix \<Rightarrow> real list option
     \<Rightarrow> nat \<Rightarrow> 'e clf_model \<Rightarrow> py_error + nat \<times> 'e clf_model assignment \<times> unit" where
  "unweighted_fit_method ops drawn x_train y_train sample_weight n m =
     bind_err
       (ClassifierUnweightedSkLearnWrapper_fit_model ops drawn \<lparr>model = m, num_classes = n\<rparr>
          x_train y_train sample_weight)
       (\<lambda>u. Inr (n, u, ()))"

definition classifier_predict_method ::
  "'e sk_classifier \<Rightarrow> matrix
     \<Rightarrow> nat \<Rightarrow> 'e clf_model \<Rightarrow> py_error + nat \<times> 'e clf_model assignment \<times> matrix" where
  "classifier_predict_method ops x n m =
     bind_err (ClassifierSkLearnWrapper_predict ops \<lparr>model = m, num_classes = n\<rparr> x)
       (\<lambda>out. Inr (n, InPlace m, out))"

definition regression_fit_method ::
  "'e sk_regressor \<Rightarrow> matrix \<Rightarrow> matrix \<Rightarrow> real list option
     \<Rightarrow> nat \<Rightarrow> 'e reg_model \<Rightarrow> py_error + nat \<times> 'e reg_model assignment \<times> unit" where
  "regression_fit_method ops x_train y_train sample_weight n m =
     bind_err
       (RegressionSkLearnWrapper_fit_model ops \<lparr>model_r = m, num_classes_r = n\<rparr>
          x_train y_train sample_weight)
       (\<lambda>u. Inr (n, u, ()))"

definition regression_predict_method ::
  "'e sk_regressor \<Rightarrow> matrix
     \<Rightarrow> nat \<Rightarrow> 'e reg_model \<Rightarrow> py_error + nat \<times> 'e reg_model assignment \<times> matrix" where
  "regression_predict_method ops x n m =
     bind_err (RegressionSkLearnWrapper_predict ops \<lparr>model_r = m, num_classes_r = n\<rparr> x)
       (\<lambda>out. Inr (n, InPlace m, out))"

definition torch_class_fit_method ::
  "('p, 'o) torch_lib \<Rightarrow> (nat \<Rightarrow> nat list) \<Rightarrow> matrix \<Rightarrow> matrix \<Rightarrow> real list option
     \<Rightarrow> int \<Rightarrow> py_num \<Rightarrow> real
     \<Rightarrow> bool \<times> nat \<Rightarrow> 'p \<Rightarrow> py_error + (bool \<times> nat) \<times> 'p assignment \<times> unit" where
  "torch_class_fit_method lib shuffle x_train y_train sample_weight batch_size epochs lr f p =
     bind_err
       (TorchClassMixin_fit lib shuffle
          \<lparr>parameters = p, training = fst f, num_classes_t = snd f\<rparr>
          x_train y_train sample_weight batch_size epochs lr)
       (\<lambda>m. Inr ((training m, num_classes_t m), InPlace (parameters m), ()))"

definition torch_regress_fit_method ::
  "('p, 'o) torch_lib \<Rightarrow> (nat \<Rightarrow> nat list) \<Rightarrow> matrix \<Rightarrow> matrix \<Rightarrow> real list option
     \<Rightarrow> int \<Rightarrow> py_num \<Rightarrow> real
     \<Rightarrow> bool \<times> nat \<Rightarrow> 'p \<Rightarrow> py_error + (bool \<times> nat) \<times> 'p assignment \<times> unit" where
  "torch_regress_fit_method lib shuffle x_train y_train sample_weight batch_size epochs lr f p =
     bind_err
       (TorchRegressMixin_fit lib shuffle
          \<lparr>parameters = p, training = fst f, num_classes_t = snd f\<rparr>
          x_train y_train sample_weight batch_size epochs lr)
       (\<lambda>m. Inr ((training m, num_classes_t m), InPlace (parameters m), ()))"

definition torch_predict_method ::
  "('p, 'o) torch_lib \<Rightarrow> matrix
     \<Rightarrow> bool \<times> nat \<Rightarrow> 'p \<Rightarrow> py_error + (bool \<times> nat) \<times> 'p assignment \<times> matrix" where
  "torch_predict_method lib x f p =
     bind_err
       (TorchPredictMixin_predict lib
          \<lparr>parameters = p, training = fst f, num_classes_t = snd f\<rparr> x)
       (\<lambda>res. Inr ((training (snd res), num_classes_t (snd res)),
                     InPlace (parameters (snd res)), fst res))"

subsection \<open>Reading the outcome of a \<^verbatim>\<open>fit\<close>\<close>


subsection \<open>Estimators to wrap\<close>

text \<open>
  Concrete values for the parameter \<^verbatim>\<open>base_model\<close>, used where a property is
  evaluated. The classifier keeps the sorted distinct labels and their weighted relative
  frequencies, and predicts those frequencies for every row, one column per label it
  has seen (sk-learn's \<^verbatim>\<open>DummyClassifier(strategy="prior")\<close>). The regressor predicts
  the weighted mean of the labels.
\<close>

definition prior_classifier :: "(nat list \<times> real list) sk_classifier" where
  "prior_classifier =
     \<lparr>est_fit = (\<lambda>e X y sw.
         if length X = length y
            \<and> (case sw_value sw of None \<Rightarrow> True | Some w \<Rightarrow> length w = length X)
         then Inr (class_distribution y (sw_value sw)) else Inl ValueError),
      est_predict_proba = (\<lambda>e X. Inr (replicate (length X) (snd e)))\<rparr>"

definition mean_regressor :: "dummy_regressor sk_regressor" where
  "mean_regressor =
     \<lparr>est_fit_reg = (\<lambda>e X y sw. DummyRegressor_fit X y (sw_value sw)),
      est_predict = (\<lambda>e X. Inr (DummyRegressor_predict e X))\<rparr>"

text \<open>
  The same classifier as a function of the keyword arguments that reach its \<^verbatim>\<open>fit\<close>:
  like every sk-learn estimator it raises \<^verbatim>\<open>TypeError\<close> on a keyword its \<^verbatim>\<open>fit\<close> does
  not declare.
\<close>

definition prior_classifier_kw ::
  "(string \<times> real list) list \<Rightarrow> (nat list \<times> real list) sk_classifier" where
  "prior_classifier_kw kwargs =
     (if kwargs = [] then prior_classifier
      else prior_classifier\<lparr>est_fit := (\<lambda>e X y sw. Inl TypeError)\<rparr>)"


section \<open>Properties\<close>

subsection \<open>The registry\<close>

lemma dom_init_subclass:
  "dom (init_subclass Models cls) = insert (lower (cls_name cls)) (dom Models)"
  by (simp add: init_subclass_def)

lemma dom_define_classes:
  "dom (define_classes Models cs) = dom Models \<union> (\<lambda>c. lower (cls_name c)) ` set cs"
  by (induction cs arbitrary: Models) (auto simp: dom_init_subclass)

lemma define_classes_other:
  "k \<notin> (\<lambda>c. lower (cls_name c)) ` set cs \<Longrightarrow> define_classes Models cs k = Models k"
  by (induction cs arbitrary: Models) (auto simp: init_subclass_def)

lemma define_classes_append:
  "define_classes Models (xs @ ys) = define_classes (define_classes Models xs) ys"
  by (induction xs arbitrary: Models) auto

lemma lower_notebook_names:
  "lower ''TorchModel'' = ''torchmodel''"
  "lower ''TorchClassMixin'' = ''torchclassmixin''"
  "lower ''TorchRegressMixin'' = ''torchregressmixin''"
  "lower ''TorchPredictMixin'' = ''torchpredictmixin''"
  "lower ''ClassifierSkLearnWrapper'' = ''classifiersklearnwrapper''"
  "lower ''ClassifierUnweightedSkLearnWrapper'' = ''classifierunweightedsklearnwrapper''"
  "lower ''RegressionSkLearnWrapper'' = ''regressionsklearnwrapper''"
  by code_simp+

text \<open>
  Claim C7. Creating a subclass stores it in the one registry under its lowercased name,
  so that a lookup of that name right after the class statement returns exactly this
  class, and still does after any further class statements none of which has the same
  lowercased name. A class statement changes no other entry, and the keys present before
  a run of class statements are all present after it: entries are added or overwritten,
  never removed.
\<close>

theorem registry_round_trip:
  "init_subclass Models cls (lower (cls_name cls)) = Some cls
   \<and> (lower (cls_name cls) \<notin> (\<lambda>c. lower (cls_name c)) ` set later \<longrightarrow>
        define_classes Models (earlier @ cls # later) (lower (cls_name cls)) = Some cls)
   \<and> (k \<noteq> lower (cls_name cls) \<longrightarrow> init_subclass Models cls k = Models k)
   \<and> dom Models \<subseteq> dom (define_classes Models cs)"
  by (simp add: define_classes_append define_classes_other dom_define_classes)
     (simp add: init_subclass_def)

theorem registry_round_trip_witness:
  "lower ''ClassifierSkLearnWrapper''
     \<notin> (\<lambda>c. lower (cls_name c)) ` set (drop 5 notebook_classes)
   \<and> define_classes Map.empty notebook_classes ''classifiersklearnwrapper''
       = Some (ModelClass ''ClassifierSkLearnWrapper'' 4)
   \<and> ''torchmodel'' \<noteq> lower ''ClassifierSkLearnWrapper''
   \<and> init_subclass (define_classes Map.empty (take 4 notebook_classes))
         (ModelClass ''ClassifierSkLearnWrapper'' 4) ''torchmodel''
       = Some (ModelClass ''TorchModel'' 0)"
  using registry_round_trip [of "define_classes Map.empty (take 4 notebook_classes)"
      "ModelClass ''ClassifierSkLearnWrapper'' 4" "drop 5 notebook_classes" "[]"
      "''torchmodel''" "[]"]
  by (simp add: notebook_classes_def lower_notebook_names init_subclass_def)

subsection \<open>Fitting on degenerate data\<close>

lemma bind_err_simps [simp]:
  "bind_err (Inl e) f = Inl e"
  "bind_err (Inr v) f = f v"
  by (simp_all add: bind_err_def)

lemma constant_fallback_fit:
  "DummyClassifier_fit (Constant 0) [[0]] [0] None =
     Inr \<lparr>dc_strategy = Constant 0, dc_classes = [0], dc_class_prior = [1], dc_n_classes = 1\<rparr>"
  by (simp add: DummyClassifier_fit_def class_distribution_def unique_def)

lemma set_columns_0:
  "0 < k \<Longrightarrow> set_columns [0] (replicate k 0) = Inr (1 # replicate (k - 1) 0)"
  by (cases k) (simp_all add: set_columns_def)

lemma constant_fallback_predict:
  "0 < k \<Longrightarrow>
   DummyClassifier_predict_proba
     \<lparr>dc_strategy = Constant 0, dc_classes = [0], dc_class_prior = p, dc_n_classes = k\<rparr> X
   = Inr (replicate (length X) (1 # replicate (k - 1) 0))"
  by (simp add: DummyClassifier_predict_proba_def positions_def set_columns_0)

lemma zero_mean_fallback_fit:
  "0 < k \<Longrightarrow> DummyRegressor_fit [[0]] [replicate k 0] None = Inr \<lparr>dr_constant = replicate k 0\<rparr>"
  by (auto simp: DummyRegressor_fit_def intro!: nth_equalityI)

lemma concat_replicate_replicate:
  "concat (replicate n (replicate k (c::real))) = replicate (n * k) c"
  by (induction n) (simp_all add: replicate_add)

lemma concat_replicate_single: "concat (replicate n [c]) = replicate n c"
  by (induction n) simp_all

lemma flatten_dummy_predict:
  "flatten (DummyRegressor_predict dr X) = concat (replicate (length X) (dr_constant dr))"
  by (simp add: DummyRegressor_predict_def flatten_def concat_replicate_single
           split: list.splits)

lemma length_concat_rows:
  "\<forall>r\<in>set m. length r = k \<Longrightarrow> length (concat m) = length m * k"
  by (induction m) simp_all

lemma chunks_concat:
  "\<forall>r\<in>set m. length r = k \<Longrightarrow>
   map (\<lambda>i. take k (drop (i * k) (concat m))) [0..<length m] = m"
proof (induction m)
  case Nil
  then show ?case by simp
next
  case (Cons r m)
  have "[0..<length (r # m)] = 0 # map Suc [0..<length m]"
    by (simp add: upt_conv_Cons map_Suc_upt del: upt_Suc)
  with Cons show ?case
    by (simp add: comp_def del: upt_Suc)
qed

lemma reshape_rows_concat:
  assumes "0 < k" and rows: "\<forall>r\<in>set m. length r = k" and "flatten a = concat m"
  shows "reshape_rows k a = Inr m"
proof -
  have len: "length (concat m) = length m * k"
    using rows by (rule length_concat_rows)
  show ?thesis
    using assms(1,3) chunks_concat [OF rows]
    by (simp add: reshape_rows_def Let_def len)
qed

lemma reshape_zeros:
  assumes "0 < k"
  shows "reshape_rows k (DummyRegressor_predict \<lparr>dr_constant = replicate k 0\<rparr> X)
         = Inr (replicate (length X) (replicate k 0))"
  using assms by (intro reshape_rows_concat) (simp_all add: flatten_dummy_predict)

lemma CatDataset_empty:
  "sw = None \<or> sw = Some [] \<Longrightarrow> CatDataset [] [] sw = Inr \<lparr>ds_x = [], ds_y = [], ds_w = sw\<rparr>"
  by (auto simp: CatDataset_def)

lemma classifier_zero_rows:
  assumes "sw = None \<or> sw = Some []"
  shows "ClassifierSkLearnWrapper_fit ops self [] [] sw =
           Inr (self\<lparr>model := Dummy \<lparr>dc_strategy = Constant 0, dc_classes = [0],
                  dc_class_prior = [1], dc_n_classes = num_classes self\<rparr>\<rparr>)"
  using assms
  by (simp add: ClassifierSkLearnWrapper_fit_def ClassifierSkLearnWrapper_fit_model_def
        CatDataset_empty len_dataset_def constant_fallback_fit assigned_def)

lemma unweighted_zero_rows:
  assumes "sw = None \<or> sw = Some []"
  shows "ClassifierUnweightedSkLearnWrapper_fit ops drawn self [] [] sw =
           Inr (self\<lparr>model := Dummy \<lparr>dc_strategy = Constant 0, dc_classes = [0],
                  dc_class_prior = [1], dc_n_classes = num_classes self\<rparr>\<rparr>)"
  using assms
  by (simp add: ClassifierUnweightedSkLearnWrapper_fit_def
        ClassifierUnweightedSkLearnWrapper_fit_model_def
        CatDataset_empty len_dataset_def constant_fallback_fit assigned_def)

lemma regression_zero_rows:
  assumes "sw = None \<or> sw = Some []" "0 < num_classes_r self"
  shows "RegressionSkLearnWrapper_fit ops self [] [] sw =
           Inr (self\<lparr>model_r := DummyReg \<lparr>dr_constant = replicate (num_classes_r self) 0\<rparr>\<rparr>)"
  using assms
  by (simp add: RegressionSkLearnWrapper_fit_def RegressionSkLearnWrapper_fit_model_def
        CatDataset_empty len_dataset_def zero_mean_fallback_fit assigned_def)

lemma argmax_axis1_all_zero:
  "\<forall>r\<in>set y. argmax r = Inr 0 \<Longrightarrow> argmax_axis1 y = Inr (replicate (length y) 0)"
  by (induction y) simp_all

lemma remdups_replicate: "remdups (replicate n c) = (if n = 0 then [] else [c])"
  by (induction n) auto

lemma unique_replicate: "0 < n \<Longrightarrow> unique (replicate n c) = [c]"
  by (simp add: unique_def remdups_replicate)

lemma count_single_class:
  "sum_list (map snd (filter (\<lambda>lw. fst lw = c) (zip (replicate n c) (replicate n (1::real)))))
   = real n"
  by (induction n) simp_all

lemma class_distribution_single:
  "0 < n \<Longrightarrow> class_distribution (replicate n c) None = ([c], [1])"
  by (simp add: class_distribution_def unique_replicate count_single_class sum_list_replicate)

lemma most_frequent_single_fit:
  "0 < length X \<Longrightarrow>
   DummyClassifier_fit MostFrequent X (replicate (length X) c) None =
     Inr \<lparr>dc_strategy = MostFrequent, dc_classes = [c], dc_class_prior = [1], dc_n_classes = 1\<rparr>"
  by (simp add: DummyClassifier_fit_def class_distribution_single)

lemma most_frequent_single_predict:
  "0 < k \<Longrightarrow>
   DummyClassifier_predict_proba
     \<lparr>dc_strategy = MostFrequent, dc_classes = cs, dc_class_prior = [1], dc_n_classes = k\<rparr> X
   = Inr (replicate (length X) (1 # replicate (k - 1) 0))"
  by (simp add: DummyClassifier_predict_proba_def argmax_def set_columns_0)

lemma classifier_only_class_0:
  assumes "x_train \<noteq> []" "length y_train = length x_train"
    and "case sw of None \<Rightarrow> True | Some w \<Rightarrow> length w = length x_train"
    and "\<forall>r\<in>set y_train. argmax r = Inr 0"
    and "2 \<le> num_classes self"
  shows "ClassifierSkLearnWrapper_fit ops self x_train y_train sw =
           Inr (self\<lparr>model := Dummy \<lparr>dc_strategy = MostFrequent, dc_classes = [0],
                  dc_class_prior = [1], dc_n_classes = num_classes self\<rparr>\<rparr>)"
  using assms most_frequent_single_fit [of x_train 0]
  by (simp add: ClassifierSkLearnWrapper_fit_def ClassifierSkLearnWrapper_fit_model_def
        CatDataset_def len_dataset_def argmax_axis1_all_zero unique_replicate assigned_def)

lemma unweighted_only_class_0:
  assumes "x_train \<noteq> []" "length y_train = length x_train"
    and "case sw of None \<Rightarrow> True | Some w \<Rightarrow> length w = length x_train"
    and "\<forall>r\<in>set y_train. argmax r = Inr 0"
    and "2 \<le> num_classes self"
  shows "ClassifierUnweightedSkLearnWrapper_fit ops drawn self x_train y_train sw =
           Inr (self\<lparr>model := Dummy \<lparr>dc_strategy = MostFrequent, dc_classes = [0],
                  dc_class_prior = [1], dc_n_classes = num_classes self\<rparr>\<rparr>)"
  using assms most_frequent_single_fit [of x_train 0]
  by (simp add: ClassifierUnweightedSkLearnWrapper_fit_def
        ClassifierUnweightedSkLearnWrapper_fit_model_def
        CatDataset_def len_dataset_def argmax_axis1_all_zero unique_replicate assigned_def)

text \<open>
  Claim C1. On a training set of zero rows (no covariates, no labels, and weights
  absent or empty) the \<^verbatim>\<open>fit\<close> of each of the three adapters raises nothing and
  returns the wrapper with its estimator replaced: by the constant-class-0 dummy whose
  class count is forced to \<^verbatim>\<open>num_classes\<close> in the two classifier adapters, by the
  mean-of-zeros dummy in the regression adapter. With a positive \<^verbatim>\<open>num_classes\<close>, a
  later \<^verbatim>\<open>predict\<close> on any input \<open>x\<close> returns one row per row of \<open>x\<close> and
  \<^verbatim>\<open>num_classes\<close> columns: probability one on class 0 and zero elsewhere for the
  classifier fallback, all zeros for the regression fallback.
\<close>

theorem zero_row_fit_falls_back:
  assumes "sw = None \<or> sw = Some []"
    and "0 < num_classes self" and "0 < num_classes_r rself"
  shows "ClassifierSkLearnWrapper_fit ops self [] [] sw =
           Inr (self\<lparr>model := Dummy \<lparr>dc_strategy = Constant 0, dc_classes = [0],
                  dc_class_prior = [1], dc_n_classes = num_classes self\<rparr>\<rparr>)
       \<and> ClassifierUnweightedSkLearnWrapper_fit ops drawn self [] [] sw =
           Inr (self\<lparr>model := Dummy \<lparr>dc_strategy = Constant 0, dc_classes = [0],
                  dc_class_prior = [1], dc_n_classes = num_classes self\<rparr>\<rparr>)
       \<and> RegressionSkLearnWrapper_fit rops rself [] [] sw =
           Inr (rself\<lparr>model_r := DummyReg \<lparr>dr_constant = replicate (num_classes_r rself) 0\<rparr>\<rparr>)
       \<and> ClassifierSkLearnWrapper_predict ops
           (self\<lparr>model := Dummy \<lparr>dc_strategy = Constant 0, dc_classes = [0],
                  dc_class_prior = [1], dc_n_classes = num_classes self\<rparr>\<rparr>) x
           = Inr (replicate (length x) (1 # replicate (num_classes self - 1) 0))
       \<and> RegressionSkLearnWrapper_predict rops
           (rself\<lparr>model_r := DummyReg \<lparr>dr_constant = replicate (num_classes_r rself) 0\<rparr>\<rparr>) x
           = Inr (replicate (length x) (replicate (num_classes_r rself) 0))"
  using assms
  by (simp add: classifier_zero_rows unweighted_zero_rows regression_zero_rows
        ClassifierSkLearnWrapper_predict_def model_predict_proba_def
        constant_fallback_predict RegressionSkLearnWrapper_predict_def model_predict_def
        reshape_zeros)

theorem zero_row_fit_falls_back_witness:
  "ClassifierSkLearnWrapper_fit prior_classifier (ClassifierSkLearnWrapper ([], []) 5) [] []
       (Some []) =
     Inr \<lparr>model = Dummy \<lparr>dc_strategy = Constant 0, dc_classes = [0],
            dc_class_prior = [1], dc_n_classes = 5\<rparr>, num_classes = 5\<rparr>
   \<and> ClassifierUnweightedSkLearnWrapper_fit prior_classifier [] (ClassifierSkLearnWrapper ([], []) 5)
       [] [] (Some []) =
     Inr \<lparr>model = Dummy \<lparr>dc_strategy = Constant 0, dc_classes = [0],
            dc_class_prior = [1], dc_n_classes = 5\<rparr>, num_classes = 5\<rparr>
   \<and> RegressionSkLearnWrapper_fit mean_regressor
       (RegressionSkLearnWrapper \<lparr>dr_constant = []\<rparr>) [] [] (Some []) =
     Inr \<lparr>model_r = DummyReg \<lparr>dr_constant = [0]\<rparr>, num_classes_r = 1\<rparr>
   \<and> ClassifierSkLearnWrapper_predict prior_classifier
       \<lparr>model = Dummy \<lparr>dc_strategy = Constant 0, dc_classes = [0],
            dc_class_prior = [1], dc_n_classes = 5\<rparr>, num_classes = 5\<rparr> [[7, 8], [9, 10]]
       = Inr [[1, 0, 0, 0, 0], [1, 0, 0, 0, 0]]
   \<and> RegressionSkLearnWrapper_predict mean_regressor
       \<lparr>model_r = DummyReg \<lparr>dr_constant = [0]\<rparr>, num_classes_r = 1\<rparr> [[7, 8], [9, 10]]
       = Inr [[0], [0]]"
  using zero_row_fit_falls_back [of "Some []" "ClassifierSkLearnWrapper ([], []) 5"
      "RegressionSkLearnWrapper \<lparr>dr_constant = []\<rparr>" prior_classifier "[]" mean_regressor
      "[[7, 8], [9, 10]]"]
  by (simp add: ClassifierSkLearnWrapper_def RegressionSkLearnWrapper_def numeral_eq_Suc)

text \<open>
  Claim C2. A classifier adapter with at least two declared classes (three in the
  claim) that is fitted on a non-empty, aligned training set in which the arg-max of
  every label row is class 0 has its estimator replaced by the most-frequent-class
  dummy, whose class count is forced to \<^verbatim>\<open>num_classes\<close>; this holds for both classifier
  adapters, with or without weights. Every later \<^verbatim>\<open>predict\<close> then returns, for every
  input and every row of it, probability one on class 0 and zero on every other class.
\<close>

theorem only_class_0_predicts_class_0:
  assumes "x_train \<noteq> []" and "length y_train = length x_train"
    and "case sw of None \<Rightarrow> True | Some w \<Rightarrow> length w = length x_train"
    and "\<forall>r\<in>set y_train. argmax r = Inr 0"
    and "2 \<le> num_classes self"
  shows "ClassifierSkLearnWrapper_fit ops self x_train y_train sw =
           Inr (self\<lparr>model := Dummy \<lparr>dc_strategy = MostFrequent, dc_classes = [0],
                  dc_class_prior = [1], dc_n_classes = num_classes self\<rparr>\<rparr>)
       \<and> ClassifierUnweightedSkLearnWrapper_fit ops drawn self x_train y_train sw =
           Inr (self\<lparr>model := Dummy \<lparr>dc_strategy = MostFrequent, dc_classes = [0],
                  dc_class_prior = [1], dc_n_classes = num_classes self\<rparr>\<rparr>)
       \<and> ClassifierSkLearnWrapper_predict ops
           (self\<lparr>model := Dummy \<lparr>dc_strategy = MostFrequent, dc_classes = [0],
                  dc_class_prior = [1], dc_n_classes = num_classes self\<rparr>\<rparr>) x
           = Inr (replicate (length x) (1 # replicate (num_classes self - 1) 0))"
  using assms
  by (simp add: classifier_only_class_0 unweighted_only_class_0
        ClassifierSkLearnWrapper_predict_def model_predict_proba_def
        most_frequent_single_predict)

theorem only_class_0_predicts_class_0_witness:
  "[[1], [2 :: real]] \<noteq> [] \<and> length [[1, 0, 0], [1, 0, 0 :: real]] = length [[1], [2 :: real]]
   \<and> (case Some [1, 2 :: real] of None \<Rightarrow> True | Some w \<Rightarrow> length w = length [[1], [2 :: real]])
   \<and> list_all (\<lambda>r. argmax r = Inr 0) [[1, 0, 0], [1, 0, 0]]
   \<and> 2 \<le> num_classes (ClassifierSkLearnWrapper ([], []) 3)
   \<and> ClassifierSkLearnWrapper_fit prior_classifier (ClassifierSkLearnWrapper ([], []) 3)
        [[1], [2]] [[1, 0, 0], [1, 0, 0]] (Some [1, 2]) =
       Inr \<lparr>model = Dummy \<lparr>dc_strategy = MostFrequent, dc_classes = [0],
              dc_class_prior = [1], dc_n_classes = 3\<rparr>, num_classes = 3\<rparr>
   \<and> ClassifierUnweightedSkLearnWrapper_fit prior_classifier [1, 1]
        (ClassifierSkLearnWrapper ([], []) 3) [[1], [2]] [[1, 0, 0], [1, 0, 0]] (Some [1, 2]) =
       Inr \<lparr>model = Dummy \<lparr>dc_strategy = MostFrequent, dc_classes = [0],
              dc_class_prior = [1], dc_n_classes = 3\<rparr>, num_classes = 3\<rparr>
   \<and> ClassifierSkLearnWrapper_predict prior_classifier
        \<lparr>model = Dummy \<lparr>dc_strategy = MostFrequent, dc_classes = [0],
              dc_class_prior = [1], dc_n_classes = 3\<rparr>, num_classes = 3\<rparr> [[4], [5], [6]]
       = Inr [[1, 0, 0], [1, 0, 0], [1, 0, 0]]"
  using only_class_0_predicts_class_0 [of "[[1], [2]]" "[[1, 0, 0], [1, 0, 0]]" "Some [1, 2]"
      "ClassifierSkLearnWrapper ([], []) 3" prior_classifier "[1, 1]" "[[4], [5], [6]]"]
  by (simp add: ClassifierSkLearnWrapper_def argmax_def numeral_eq_Suc)

subsection \<open>When the most-frequent-class fallback is taken\<close>



lemma classifier_fit_model_nonempty:
  assumes "x_train \<noteq> []" "length y_train = length x_train"
    and "case sw of None \<Rightarrow> True | Some w \<Rightarrow> length w = length x_train"
    and "argmax_axis1 y_train = Inr y"
  shows "ClassifierSkLearnWrapper_fit_model ops self x_train y_train sw =
     (if length (unique y) \<noteq> num_classes self
      then bind_err (DummyClassifier_fit MostFrequent x_train y None) (\<lambda>dc.
             Inr (Replaced (Dummy (dc\<lparr>dc_n_classes := num_classes self\<rparr>))))
      else bind_err (model_fit ops (model self) x_train y (Given (map_option squeeze sw)))
             (\<lambda>m. Inr (InPlace m)))"
  using assms
  by (auto simp: ClassifierSkLearnWrapper_fit_model_def CatDataset_def len_dataset_def Let_def
           split: option.splits)













subsection \<open>The training loop\<close>

lemma map_err_first_fails:
  "m \<noteq> [] \<Longrightarrow> f (hd m) = Inl e \<Longrightarrow> map_err f m = Inl e"
  by (cases m) simp_all

lemma map_err_total:
  "\<forall>a\<in>set m. f a = Inr (g a) \<Longrightarrow> map_err f m = Inr (map g m)"
  by (induction m) simp_all

lemma concat_single_column:
  "concat (map2 (\<lambda>l wi. map (\<lambda>v. v * wi) l) (map (\<lambda>v. [v]) l) w) = map2 (*) l w"
proof (induction l arbitrary: w)
  case Nil
  then show ?case by simp
next
  case (Cons a l)
  then show ?case by (cases w) simp_all
qed

lemma row_weighted_mean_single_column:
  "row_weighted_mean (map (\<lambda>v. [v]) l) w = sum_list (map2 (*) l w) / real (length l)"
proof -
  have b: "length (concat (map (\<lambda>v. [v]) l)) = length l"
    by (induction l) simp_all
  show ?thesis
    by (simp add: row_weighted_mean_def concat_single_column b)
qed

lemma categorical_weighted_loss:
  assumes "device lib p = Inr d" and "forward lib p True x_batch = Inr outputs"
    and "map length outputs = map length y_batch"
    and "length y_batch = length w"
  shows "batch_loss lib cross_entropy (Some sw) (x_batch, y_batch, Some w) p
         = Inr (row_weighted_mean (map (\<lambda>v. [v]) (map2 (ce lib) outputs y_batch)) w)"
proof -
  define l where "l = map2 (ce lib) outputs y_batch"
  have len: "length outputs = length y_batch"
    using assms(3) by (metis length_map)
  then have ll: "length l = length w"
    using assms(4) by (simp add: l_def)
  have crit: "criterion_none lib cross_entropy outputs y_batch = Inr (Tensor1 l)"
    using assms(3) by (simp add: criterion_none_def l_def)
  have "batch_loss lib cross_entropy (Some sw) (x_batch, y_batch, Some w) p
         = Inr (row_weighted_mean (map (\<lambda>v. [v]) l) w)"
    using assms(1,2) crit ll
    by (simp add: batch_loss_def apply_criterion_def times_weights_def broadcast_row_def
          tensor_mean_def row_weighted_mean_single_column)
  then show ?thesis
    unfolding l_def .
qed

lemma binary_losses_shape:
  "map length outputs = map length y_batch \<Longrightarrow> list_all (\<lambda>r. length r = 2) y_batch \<Longrightarrow>
   list_all (\<lambda>r. length r = 2) (map2 (map2 f) outputs y_batch)
   \<and> length (map2 (map2 f) outputs y_batch) = length y_batch"
proof (induction outputs arbitrary: y_batch)
  case Nil
  then show ?case by simp
next
  case (Cons r outputs)
  then show ?case by (cases y_batch) auto
qed

lemma binary_weighted_raises:
  assumes "list_all (\<lambda>r. length r = 2) m" and "m \<noteq> []" and "3 \<le> length w"
  shows "times_weights (Tensor2 m) w = Inl RuntimeError"
proof -
  have "length (hd m) = 2"
    using assms(1,2) by (cases m) simp_all
  then have "broadcast_row (*) (hd m) w = Inl RuntimeError"
    using assms(3) by (simp add: broadcast_row_def)
  then show ?thesis
    using assms(2) by (simp add: times_weights_def map_err_first_fails)
qed

lemma binary_weighted_columns:
  assumes "list_all (\<lambda>r. length r = 2) m" and "length w = 2"
  shows "times_weights (Tensor2 m) w = Inr (Tensor2 (map (\<lambda>l. [l ! 0 * w ! 0, l ! 1 * w ! 1]) m))"
proof -
  obtain w0 w1 where w: "w = [w0, w1]"
    using assms(2) by (cases w; cases "tl w") auto
  have "\<forall>r\<in>set m. broadcast_row (*) r w = Inr [r ! 0 * w ! 0, r ! 1 * w ! 1]"
  proof
    fix r assume "r \<in> set m"
    then have "length r = 2" using assms(1) by (simp add: list_all_iff)
    then obtain a b where "r = [a, b]"
      by (cases r; cases "tl r") auto
    then show "broadcast_row (*) r w = Inr [r ! 0 * w ! 0, r ! 1 * w ! 1]"
      by (simp add: broadcast_row_def w)
  qed
  from map_err_total [OF this] show ?thesis
    by (simp add: times_weights_def)
qed

lemma binary_weighted_single_row:
  assumes "list_all (\<lambda>r. length r = 2) m" and "length w = 1" and "length m = 1"
  shows "bind_err (times_weights (Tensor2 m) w) (\<lambda>weighted. Inr (tensor_mean weighted))
         = Inr (row_weighted_mean m w)"
proof -
  obtain v where w: "w = [v]"
    using assms(2) by (cases w) auto
  obtain r where m: "m = [r]"
    using assms(3) by (cases m) auto
  show ?thesis
    using assms(1)
    by (simp add: m w times_weights_def broadcast_row_def tensor_mean_def row_weighted_mean_def)
qed

lemma sum_concat_pairs:
  "sum_list (concat (map (\<lambda>l. [f l, g l :: real]) m)) = sum_list (map (\<lambda>l. f l + g l) m)"
  "length (concat (map (\<lambda>l. [f l, g l]) m)) = 2 * length m"
  by (induction m) simp_all

text \<open>
  Claim C5. The classification \<^verbatim>\<open>fit\<close> selects binary cross-entropy exactly when
  \<^verbatim>\<open>num_classes\<close> is 2 and categorical cross-entropy otherwise. Take a batch with labels
  of \<^verbatim>\<open>num_classes\<close> columns, outputs of the same shape and one weight per row. With the
  categorical criterion the loss of the batch is computed per row, multiplied by the
  weight of the row and averaged, as the claim says. With the binary criterion it is so
  only for a batch of one row. The unreduced binary loss has one entry per row and
  class, and its product with the weights aligns the weights with the classes: on a
  batch of two rows the loss of class \<open>j\<close> of every row is multiplied by the weight of
  row \<open>j\<close>, and on a batch of three or more rows \<^verbatim>\<open>loss * weights[0]\<close> raises
  \<^verbatim>\<open>RuntimeError\<close>.
\<close>

theorem weighted_loss_of_a_batch:
  assumes "device lib p = Inr d" and "forward lib p True x_batch = Inr outputs"
    and "map length outputs = map length y_batch"
    and "list_all (\<lambda>r. length r = n) y_batch"
    and "length y_batch = length w" and "w \<noteq> []"
  shows "(class_criterion n = binary_cross_entropy \<longleftrightarrow> n = 2)
       \<and> (class_criterion n = cross_entropy \<longleftrightarrow> n \<noteq> 2)
       \<and> (n \<noteq> 2 \<longrightarrow>
            batch_loss lib (class_criterion n) (Some sw) (x_batch, y_batch, Some w) p
              = Inr (row_weighted_mean (map (\<lambda>v. [v]) (map2 (ce lib) outputs y_batch)) w))
       \<and> (n = 2 \<and> list_all (list_all (\<lambda>v. 0 \<le> v \<and> v \<le> 1)) outputs \<longrightarrow>
            (length w = 1 \<longrightarrow>
               batch_loss lib (class_criterion n) (Some sw) (x_batch, y_batch, Some w) p
                 = Inr (row_weighted_mean (map2 (map2 (bce lib)) outputs y_batch) w))
          \<and> (length w = 2 \<longrightarrow>
               batch_loss lib (class_criterion n) (Some sw) (x_batch, y_batch, Some w) p
                 = Inr (sum_list (map (\<lambda>l. l ! 0 * w ! 0 + l ! 1 * w ! 1)
                                    (map2 (map2 (bce lib)) outputs y_batch)) / 4))
          \<and> (3 \<le> length w \<longrightarrow>
               batch_loss lib (class_criterion n) (Some sw) (x_batch, y_batch, Some w) p
                 = Inl RuntimeError))"
proof -
  define m where "m = map2 (map2 (bce lib)) outputs y_batch"
  have sel: "(class_criterion n = binary_cross_entropy \<longleftrightarrow> n = 2)"
    "(class_criterion n = cross_entropy \<longleftrightarrow> n \<noteq> 2)"
    by (simp_all add: class_criterion_def)
  have cat: "batch_loss lib (class_criterion n) (Some sw) (x_batch, y_batch, Some w) p
              = Inr (row_weighted_mean (map (\<lambda>v. [v]) (map2 (ce lib) outputs y_batch)) w)"
    if "n \<noteq> 2"
  proof -
    have "class_criterion n = cross_entropy"
      using that by (simp add: class_criterion_def)
    then show ?thesis
      using categorical_weighted_loss [OF assms(1,2,3,5)] by simp
  qed
  have crit: "criterion_none lib (class_criterion n) outputs y_batch = Inr (Tensor2 m)"
    if "n = 2" "list_all (list_all (\<lambda>v. 0 \<le> v \<and> v \<le> 1)) outputs"
    using that assms(3) by (simp add: criterion_none_def class_criterion_def m_def)
  have bin: "batch_loss lib (class_criterion n) (Some sw) (x_batch, y_batch, Some w) p
      = bind_err (times_weights (Tensor2 m) w) (\<lambda>weighted. Inr (tensor_mean weighted))"
    if "n = 2" "list_all (list_all (\<lambda>v. 0 \<le> v \<and> v \<le> 1)) outputs"
    using crit [OF that] assms(1,2)
    by (simp add: batch_loss_def apply_criterion_def)
  have shape: "list_all (\<lambda>r. length r = 2) m" "length m = length w" if "n = 2"
    using binary_losses_shape [OF assms(3), of "bce lib"] assms(4,5) that
    unfolding m_def by simp_all
  have one: "batch_loss lib (class_criterion n) (Some sw) (x_batch, y_batch, Some w) p
                 = Inr (row_weighted_mean m w)"
    if "n = 2" "list_all (list_all (\<lambda>v. 0 \<le> v \<and> v \<le> 1)) outputs" "length w = 1"
  proof -
    have "length m = 1"
      using shape(2) [OF that(1)] that(3) by simp
    from binary_weighted_single_row [OF shape(1) [OF that(1)] that(3) this] bin [OF that(1,2)]
    show ?thesis by simp
  qed
  have two: "batch_loss lib (class_criterion n) (Some sw) (x_batch, y_batch, Some w) p
                 = Inr (sum_list (map (\<lambda>l. l ! 0 * w ! 0 + l ! 1 * w ! 1) m) / 4)"
    if "n = 2" "list_all (list_all (\<lambda>v. 0 \<le> v \<and> v \<le> 1)) outputs" "length w = 2"
  proof -
    have l: "length m = 2"
      using shape(2) [OF that(1)] that(3) by simp
    have "bind_err (times_weights (Tensor2 m) w) (\<lambda>weighted. Inr (tensor_mean weighted))
          = Inr (tensor_mean (Tensor2 (map (\<lambda>l. [l ! 0 * w ! 0, l ! 1 * w ! 1]) m)))"
      unfolding binary_weighted_columns [OF shape(1) [OF that(1)] that(3)] by simp
    also have "tensor_mean (Tensor2 (map (\<lambda>l. [l ! 0 * w ! 0, l ! 1 * w ! 1]) m))
          = sum_list (map (\<lambda>l. l ! 0 * w ! 0 + l ! 1 * w ! 1) m) / 4"
      unfolding tensor_mean_def tensor.case sum_concat_pairs l by simp
    finally show ?thesis
      using bin [OF that(1,2)] by simp
  qed
  have many: "batch_loss lib (class_criterion n) (Some sw) (x_batch, y_batch, Some w) p
                 = Inl RuntimeError"
    if "n = 2" "list_all (list_all (\<lambda>v. 0 \<le> v \<and> v \<le> 1)) outputs" "3 \<le> length w"
  proof -
    have "m \<noteq> []"
      using shape(2) [OF that(1)] assms(6) by auto
    from binary_weighted_raises [OF shape(1) [OF that(1)] this that(3)] bin [OF that(1,2)]
    show ?thesis by simp
  qed
  from sel cat one two many show ?thesis
    unfolding m_def by blast
qed

text \<open>
  The loss on three batches for a module with one parameter, \<open>1 / 2\<close>: three classes
  and weights 1 and 3; two classes, two rows and weights 1 and 3, where the per-row
  weighted mean is \<open>7 / 8\<close> and the code computes 1; two classes and three rows,
  where the code raises. Then what \<^verbatim>\<open>fit\<close> returns from one epoch on the last two.
\<close>

lemma toy_batches:
  "device toy_torch (1 / 2) = Inr 0"
  "forward toy_torch (1 / 2) True [[1, 1, 1], [2, 2, 2]] = Inr [[1 / 2, 1 / 2, 1 / 2], [1, 1, 1]]"
  "forward toy_torch (1 / 2) True [[1, 1], [2, 2]] = Inr [[1 / 2, 1 / 2], [1, 1]]"
  "forward toy_torch (1 / 2) True [[1, 1], [1, 1], [1, 1]]
     = Inr [[1 / 2, 1 / 2], [1 / 2, 1 / 2], [1 / 2, 1 / 2]]"
  "row_weighted_mean
     (map (\<lambda>v. [v])
        (map2 (ce toy_torch) [[1 / 2, 1 / 2, 1 / 2], [1, 1, 1]] [[1, 0, 0], [0, 1, 0]]))
     [1, 3] = 27 / 8"
  "row_weighted_mean (map2 (map2 (bce toy_torch)) [[1 / 2, 1 / 2], [1, 1]] [[0, 1], [1, 0]])
     [1, 3] = 7 / 8"
  "sum_list (map (\<lambda>l. l ! 0 * [1, 3] ! 0 + l ! 1 * [1, 3] ! 1)
       (map2 (map2 (bce toy_torch)) [[1 / 2, 1 / 2], [1, 1]] [[0, 1], [1, 0]])) / 4 = (1 :: real)"
  by (simp_all add: toy_torch_def row_weighted_mean_def)

lemma binary_fit_examples:
  "TorchClassMixin_fit toy_torch (\<lambda>k. [2, 0, 1])
        \<lparr>parameters = 1 / 2, training = False, num_classes_t = 2\<rparr>
        [[1, 1], [1, 1], [1, 1]] [[1, 0], [0, 1], [1, 0]] (Some [1, 1, 1]) 32 (PyInt 1) (1 / 100)
     = Inl RuntimeError"
  "TorchClassMixin_fit toy_torch (\<lambda>k. [2, 0, 1])
        \<lparr>parameters = 1 / 2, training = False, num_classes_t = 2\<rparr>
        [[1, 1], [1, 1], [1, 1]] [[1, 0], [0, 1], [1, 0]] None 32 (PyInt 1) (1 / 100)
     = Inr \<lparr>parameters = 1 / 4, training = True, num_classes_t = 2\<rparr>"
  "TorchClassMixin_fit toy_torch (\<lambda>k. [0, 1])
        \<lparr>parameters = 1 / 2, training = False, num_classes_t = 2\<rparr>
        [[1, 1], [2, 2]] [[0, 1], [1, 0]] (Some [1, 3]) 32 (PyInt 1) (1 / 100)
     = Inr \<lparr>parameters = - (1 / 2), training = True, num_classes_t = 2\<rparr>"
  by (simp_all add: TorchClassMixin_fit_def toy_torch_def CatDataset_def py_int_def py_range_def
       DataLoader_def len_dataset_def chunks_def batch_of_def batch_loss_def bind_err_def
       class_criterion_def apply_criterion_def criterion_none_def times_weights_def
       broadcast_row_def tensor_mean_def)

theorem weighted_loss_of_a_batch_witness:
  "batch_loss toy_torch (class_criterion 3) (Some [1, 3])
       ([[1, 1, 1], [2, 2, 2]], [[1, 0, 0], [0, 1, 0]], Some [1, 3]) (1 / 2)
     = Inr (27 / 8)
   \<and> row_weighted_mean
        (map (\<lambda>v. [v])
           (map2 (ce toy_torch) [[1 / 2, 1 / 2, 1 / 2], [1, 1, 1]] [[1, 0, 0], [0, 1, 0]]))
        [1, 3] = 27 / 8
   \<and> class_criterion 2 = binary_cross_entropy
   \<and> batch_loss toy_torch (class_criterion 2) (Some [1, 3])
       ([[1, 1], [2, 2]], [[0, 1], [1, 0]], Some [1, 3]) (1 / 2)
     = Inr 1
   \<and> row_weighted_mean (map2 (map2 (bce toy_torch)) [[1 / 2, 1 / 2], [1, 1]] [[0, 1], [1, 0]])
        [1, 3] = 7 / 8
   \<and> batch_loss toy_torch (class_criterion 2) (Some [1, 1, 1])
       ([[1, 1], [1, 1], [1, 1]], [[1, 0], [0, 1], [1, 0]], Some [1, 1, 1]) (1 / 2)
     = Inl RuntimeError
   \<and> TorchClassMixin_fit toy_torch (\<lambda>k. [2, 0, 1])
        \<lparr>parameters = 1 / 2, training = False, num_classes_t = 2\<rparr>
        [[1, 1], [1, 1], [1, 1]] [[1, 0], [0, 1], [1, 0]] (Some [1, 1, 1]) 32 (PyInt 1) (1 / 100)
     = Inl RuntimeError
   \<and> TorchClassMixin_fit toy_torch (\<lambda>k. [2, 0, 1])
        \<lparr>parameters = 1 / 2, training = False, num_classes_t = 2\<rparr>
        [[1, 1], [1, 1], [1, 1]] [[1, 0], [0, 1], [1, 0]] None 32 (PyInt 1) (1 / 100)
     = Inr \<lparr>parameters = 1 / 4, training = True, num_classes_t = 2\<rparr>
   \<and> TorchClassMixin_fit toy_torch (\<lambda>k. [0, 1])
        \<lparr>parameters = 1 / 2, training = False, num_classes_t = 2\<rparr>
        [[1, 1], [2, 2]] [[0, 1], [1, 0]] (Some [1, 3]) 32 (PyInt 1) (1 / 100)
     = Inr \<lparr>parameters = - (1 / 2), training = True, num_classes_t = 2\<rparr>"
proof -
  note t = toy_batches
  have three: "batch_loss toy_torch (class_criterion 3) (Some [1, 3])
       ([[1, 1, 1], [2, 2, 2]], [[1, 0, 0], [0, 1, 0]], Some [1, 3]) (1 / 2)
     = Inr (27 / 8)"
  proof -
    have "map length [[1 / 2, 1 / 2, 1 / 2], [1, 1, 1 :: real]]
            = map length [[1, 0, 0], [0, 1, 0 :: real]]"
      "list_all (\<lambda>r. length r = 3) [[1, 0, 0], [0, 1, 0 :: real]]"
      "length [[1, 0, 0], [0, 1, 0 :: real]] = length [1, 3 :: real]" "[1, 3 :: real] \<noteq> []"
      by simp_all
    note inst = weighted_loss_of_a_batch [OF t(1) t(2) this, where sw = "[1, 3]"]
    have "(3 :: nat) \<noteq> 2" by simp
    with inst show ?thesis
      unfolding t(5) by blast
  qed
  have sel: "class_criterion 2 = binary_cross_entropy"
    by (simp add: class_criterion_def)
  have two: "batch_loss toy_torch (class_criterion 2) (Some [1, 3])
       ([[1, 1], [2, 2]], [[0, 1], [1, 0]], Some [1, 3]) (1 / 2)
     = Inr 1"
  proof -
    have "map length [[1 / 2, 1 / 2], [1, 1 :: real]] = map length [[0, 1], [1, 0 :: real]]"
      "list_all (\<lambda>r. length r = 2) [[0, 1], [1, 0 :: real]]"
      "length [[0, 1], [1, 0 :: real]] = length [1, 3 :: real]" "[1, 3 :: real] \<noteq> []"
      by simp_all
    note inst = weighted_loss_of_a_batch [OF t(1) t(3) this, where sw = "[1, 3]"]
    have "list_all (list_all (\<lambda>v. 0 \<le> v \<and> v \<le> 1)) [[1 / 2, 1 / 2], [1, 1 :: real]]"
      "length [1, 3 :: real] = 2"
      by simp_all
    with inst show ?thesis
      unfolding t(7) by blast
  qed
  have many: "batch_loss toy_torch (class_criterion 2) (Some [1, 1, 1])
       ([[1, 1], [1, 1], [1, 1]], [[1, 0], [0, 1], [1, 0]], Some [1, 1, 1]) (1 / 2)
     = Inl RuntimeError"
  proof -
    have "map length [[1 / 2, 1 / 2], [1 / 2, 1 / 2], [1 / 2, 1 / 2 :: real]]
            = map length [[1, 0], [0, 1], [1, 0 :: real]]"
      "list_all (\<lambda>r. length r = 2) [[1, 0], [0, 1], [1, 0 :: real]]"
      "length [[1, 0], [0, 1], [1, 0 :: real]] = length [1, 1, 1 :: real]"
      "[1, 1, 1 :: real] \<noteq> []"
      by simp_all
    note inst = weighted_loss_of_a_batch [OF t(1) t(4) this, where sw = "[1, 1, 1]"]
    have "list_all (list_all (\<lambda>v. 0 \<le> v \<and> v \<le> 1))
            [[1 / 2, 1 / 2], [1 / 2, 1 / 2], [1 / 2, 1 / 2 :: real]]"
      "3 \<le> length [1, 1, 1 :: real]"
      by simp_all
    with inst show ?thesis
      by blast
  qed
  from three t(5) sel two t(6) many binary_fit_examples
  show ?thesis by (intro conjI)
qed

text \<open>
  Claim C10. When \<^verbatim>\<open>int(epochs)\<close> is zero, and the optimiser and the data set can be
  built from the arguments, \<^verbatim>\<open>fit\<close> of either training mixin returns the module in
  training mode with its parameters as they were: whatever the library's optimiser
  step does, it has no part in the result.
\<close>

theorem zero_epochs_leave_parameters:
  assumes "py_int epochs = 0"
    and "Adam lib (parameters self) lr = Inr optimizer"
    and "CatDataset x_train y_train sample_weight = Inr dataset"
  shows "TorchClassMixin_fit lib shuffle self x_train y_train sample_weight batch_size epochs lr
           = Inr (self\<lparr>training := True\<rparr>)
       \<and> TorchRegressMixin_fit lib shuffle self x_train y_train sample_weight batch_size epochs lr
           = Inr (self\<lparr>training := True\<rparr>)
       \<and> parameters (self\<lparr>training := True\<rparr>) = parameters self"
  using assms
  by (simp add: TorchClassMixin_fit_def TorchRegressMixin_fit_def py_range_def)

theorem zero_epochs_leave_parameters_witness:
  "py_int (PyFloat (9 / 10)) = 0
   \<and> Adam toy_torch (parameters \<lparr>parameters = 3, training = False, num_classes_t = 2\<rparr>) (1 / 100)
       = Inr 0
   \<and> CatDataset [[1], [2]] [[1, 0], [0, 1]] (Some [1, 1])
       = Inr \<lparr>ds_x = [[1], [2]], ds_y = [[1, 0], [0, 1]], ds_w = Some [1, 1]\<rparr>
   \<and> TorchClassMixin_fit toy_torch (\<lambda>k. [1, 0])
        \<lparr>parameters = 3, training = False, num_classes_t = 2\<rparr>
        [[1], [2]] [[1, 0], [0, 1]] (Some [1, 1]) 32 (PyFloat (9 / 10)) (1 / 100)
       = Inr \<lparr>parameters = 3, training = True, num_classes_t = 2\<rparr>
   \<and> TorchRegressMixin_fit toy_torch (\<lambda>k. [1, 0])
        \<lparr>parameters = 3, training = False, num_classes_t = 2\<rparr>
        [[1], [2]] [[1, 0], [0, 1]] (Some [1, 1]) 32 (PyFloat (9 / 10)) (1 / 100)
       = Inr \<lparr>parameters = 3, training = True, num_classes_t = 2\<rparr>"
proof -
  have e: "py_int (PyFloat (9 / 10)) = 0"
    by (simp add: py_int_def)
  have a: "Adam toy_torch (parameters \<lparr>parameters = 3, training = False, num_classes_t = 2\<rparr>)
             (1 / 100) = Inr 0"
    by (simp add: toy_torch_def)
  have d: "CatDataset [[1], [2]] [[1, 0], [0, 1]] (Some [1, 1])
       = Inr \<lparr>ds_x = [[1], [2]], ds_y = [[1, 0], [0, 1]], ds_w = Some [1, 1]\<rparr>"
    by (simp add: CatDataset_def)
  show ?thesis
    using zero_epochs_leave_parameters [OF e a d, of "\<lambda>k. [1, 0]" 32] e a d
    by simp
qed

text \<open>With one epoch over two batches of one row the same call takes two steps.\<close>

lemma one_epoch_example:
  "TorchClassMixin_fit toy_torch (\<lambda>k. [1, 0])
        \<lparr>parameters = 1 / 2, training = False, num_classes_t = 2\<rparr>
        [[1, 1], [2, 2]] [[0, 1], [1, 0]] None 1 (PyInt 1) (1 / 100)
       = Inr \<lparr>parameters = - (1 / 2), training = True, num_classes_t = 2\<rparr>"
  by (simp add: TorchClassMixin_fit_def toy_torch_def CatDataset_def py_int_def py_range_def
       DataLoader_def len_dataset_def chunks_def batch_of_def batch_loss_def bind_err_def
       class_criterion_def apply_criterion_def criterion_none_def tensor_mean_def)


subsection \<open>Equal weights against no weights\<close>

lemma classifier_fit_nonempty:
  assumes "x_train \<noteq> []" "length y_train = length x_train"
    and "case sw of None \<Rightarrow> True | Some w \<Rightarrow> length w = length x_train"
    and "argmax_axis1 y_train = Inr y"
  shows "ClassifierSkLearnWrapper_fit ops self x_train y_train sw =
     (if length (unique y) \<noteq> num_classes self
      then bind_err (DummyClassifier_fit MostFrequent x_train y None) (\<lambda>dc.
             Inr (self\<lparr>model := Dummy (dc\<lparr>dc_n_classes := num_classes self\<rparr>)\<rparr>))
      else bind_err (model_fit ops (model self) x_train y (Given (map_option squeeze sw)))
             (\<lambda>m. Inr (self\<lparr>model := m\<rparr>)))"
  unfolding ClassifierSkLearnWrapper_fit_def classifier_fit_model_nonempty [OF assms]
  by (auto simp: bind_err_def assigned_def split: sum.splits)






















lemma prior_examples:
  "class_distribution [0, 0] None = ([0], [1])"
  "class_distribution [0, 1] None = ([0, 1], [1 / 2, 1 / 2])"
  "class_distribution [0, 1] (Some [1, 1]) = ([0, 1], [1 / 2, 1 / 2])"
  "class_distribution [0] None = ([0], [1])"
  by code_simp+

lemma example_labels:
  "argmax_axis1 [[1, 0], [0, 1]] = Inr [0, 1]"
  "unique [0, 1] = [0, 1]"
  "argmax_axis1 [[1]] = Inr [0]"
  "unique [0] = [0]"
  by (simp_all add: argmax_def unique_def)

lemma resample_example:
  "ClassifierUnweightedSkLearnWrapper_fit prior_classifier [0, 0]
       (ClassifierSkLearnWrapper ([], []) 2) [[0], [1]] [[1, 0], [0, 1]] (Some [1, 1])
     = Inr \<lparr>model = Wrapped ([0], [1]), num_classes = 2\<rparr>"
  "ClassifierUnweightedSkLearnWrapper_fit prior_classifier [0, 0]
       (ClassifierSkLearnWrapper ([], []) 2) [[0], [1]] [[1, 0], [0, 1]] None
     = Inr \<lparr>model = Wrapped ([0, 1], [1 / 2, 1 / 2]), num_classes = 2\<rparr>"
  using prior_examples example_labels
  by (simp_all add: ClassifierUnweightedSkLearnWrapper_fit_def
        ClassifierUnweightedSkLearnWrapper_fit_model_def CatDataset_def len_dataset_def
        ClassifierSkLearnWrapper_def random_choice_def squeeze_def squeezed_div_def
        take_rows_def model_fit_def check_sample_weight_def
        prior_classifier_def sw_value_def assigned_def)



text \<open>
  The other two adapters on a single weighted row: the probabilities handed to
  \<^verbatim>\<open>np.random.choice\<close> and the weights handed to the regressor are 0-dimensional.
\<close>

lemma one_row_weighted_fits:
  "ClassifierUnweightedSkLearnWrapper_fit prior_classifier [0]
       (ClassifierSkLearnWrapper ([], []) 1) [[0]] [[1]] (Some [1])
     = Inl TypeError"
  "RegressionSkLearnWrapper_fit mean_regressor (RegressionSkLearnWrapper \<lparr>dr_constant = []\<rparr>)
       [[0]] [[5]] (Some [1])
     = Inl TypeError"
  "RegressionSkLearnWrapper_fit mean_regressor (RegressionSkLearnWrapper \<lparr>dr_constant = []\<rparr>)
       [[0]] [[5]] None
     = Inr \<lparr>model_r = WrappedReg \<lparr>dr_constant = [5]\<rparr>, num_classes_r = 1\<rparr>"
  using example_labels
  by (simp_all add: ClassifierUnweightedSkLearnWrapper_fit_def
        ClassifierUnweightedSkLearnWrapper_fit_model_def RegressionSkLearnWrapper_fit_def
        RegressionSkLearnWrapper_fit_model_def CatDataset_def len_dataset_def
        ClassifierSkLearnWrapper_def RegressionSkLearnWrapper_def squeeze_def squeezed_div_def
        random_choice_def model_fit_reg_def check_sample_weight_def mean_regressor_def
        DummyRegressor_fit_def sw_value_def assigned_def)





subsection \<open>The shape of a prediction\<close>

lemma length_fold_update: "length (fold (\<lambda>i r. r[i := v]) inds row) = length row"
  by (induction inds arbitrary: row) simp_all

lemma set_columns_length: "set_columns inds row = Inr row' \<Longrightarrow> length row' = length row"
  by (auto simp: set_columns_def length_fold_update split: if_splits)

lemma dummy_predict_proba_shape:
  assumes "DummyClassifier_predict_proba dc X = Inr out"
  shows "length out = length X \<and> (\<forall>row\<in>set out. length row = dc_n_classes dc)"
  using assms
  by (auto simp: DummyClassifier_predict_proba_def bind_err_def
           split: sum.splits dummy_strategy.splits dest!: set_columns_length)

lemma dummy_fit_n_classes:
  "DummyClassifier_fit strat X y sw = Inr dc \<Longrightarrow> dc_n_classes dc = length (unique y)"
  by (auto simp: DummyClassifier_fit_def class_distribution_def Let_def split: if_splits)

text \<open>
  \<^verbatim>\<open>ClassifierSkLearnWrapper\<close> keeps the shape: when the wrapped estimator returns one
  row per input row and one column per class it was fitted on, \<^verbatim>\<open>predict\<close> after a
  \<^verbatim>\<open>fit\<close> on a non-empty training set returns one row per input row and
  \<^verbatim>\<open>num_classes\<close> columns, on the fallback path and on the path that fits the estimator.
\<close>

lemma classifier_predict_shape:
  assumes contract: "\<And>e X y sw e' X' out.
      est_fit ops e X y sw = Inr e' \<Longrightarrow> est_predict_proba ops e' X' = Inr out \<Longrightarrow>
      length out = length X' \<and> (\<forall>row\<in>set out. length row = length (unique y))"
    and nonempty: "x_train \<noteq> []"
    and fit: "ClassifierSkLearnWrapper_fit ops self x_train y_train sw = Inr self'"
    and predict: "ClassifierSkLearnWrapper_predict ops self' x = Inr out"
  shows "length out = length x \<and> (\<forall>row\<in>set out. length row = num_classes self)"
proof -
  from fit obtain dataset where ds: "CatDataset x_train y_train sw = Inr dataset"
    by (cases "CatDataset x_train y_train sw")
       (auto simp: ClassifierSkLearnWrapper_fit_def ClassifierSkLearnWrapper_fit_model_def)
  then have aligned: "length y_train = length x_train"
    "case sw of None \<Rightarrow> True | Some w \<Rightarrow> length w = length x_train"
    by (auto simp: CatDataset_def split: if_splits)
  from fit ds nonempty obtain y where y: "argmax_axis1 y_train = Inr y"
    by (cases "argmax_axis1 y_train")
       (auto simp: ClassifierSkLearnWrapper_fit_def ClassifierSkLearnWrapper_fit_model_def
          CatDataset_def len_dataset_def split: if_splits)
  note unfolded = classifier_fit_nonempty [OF nonempty aligned y, of ops self]
  show ?thesis
  proof (cases "length (unique y) \<noteq> num_classes self")
    case True
    with fit unfolded obtain dc where
      "self' = self\<lparr>model := Dummy (dc\<lparr>dc_n_classes := num_classes self\<rparr>)\<rparr>"
      by (auto simp: bind_err_def split: sum.splits)
    with predict show ?thesis
      using dummy_predict_proba_shape [of "dc\<lparr>dc_n_classes := num_classes self\<rparr>" x out]
      by (simp add: ClassifierSkLearnWrapper_predict_def model_predict_proba_def)
  next
    case False
    with fit unfolded obtain m where
      m: "model_fit ops (model self) x_train y (Given (map_option squeeze sw)) = Inr m"
        "self' = self\<lparr>model := m\<rparr>"
      by (auto simp: bind_err_def split: sum.splits)
    show ?thesis
    proof (cases "model self")
      case (Wrapped e)
      with m obtain e' a where "est_fit ops e x_train y a = Inr e'" "m = Wrapped e'"
        by (auto simp: model_fit_def bind_err_def split: sum.splits)
      with predict m(2) contract [of e x_train y a e' x out] False show ?thesis
        by (simp add: ClassifierSkLearnWrapper_predict_def model_predict_proba_def)
    next
      case (Dummy dc)
      with m obtain dc' a where
        "DummyClassifier_fit (dc_strategy dc) x_train y a = Inr dc'"
        "m = Dummy dc'"
        by (auto simp: model_fit_def bind_err_def split: sum.splits)
      with predict m(2) False dummy_fit_n_classes [of "dc_strategy dc" x_train y _ dc']
        dummy_predict_proba_shape [of dc' x out]
      show ?thesis
        by (simp add: ClassifierSkLearnWrapper_predict_def model_predict_proba_def)
    qed
  qed
qed


text \<open>
  Claim C8 at a failing input. \<^verbatim>\<open>ClassifierUnweightedSkLearnWrapper\<close> with two declared
  classes is fitted on two rows of classes 0 and 1 with weights 1 and 1. Both classes
  are in the sample, so no fallback is taken (line 434); the draw of line 439 returns
  row 0 twice, the wrapped estimator is fitted on class 0 alone, and \<^verbatim>\<open>predict\<close> on two
  rows returns two rows of one column, not of \<^verbatim>\<open>num_classes = 2\<close> columns.
\<close>

theorem resample_loses_a_column:
  "ClassifierUnweightedSkLearnWrapper_fit prior_classifier [0, 0]
       (ClassifierSkLearnWrapper ([], []) 2) [[0], [1]] [[1, 0], [0, 1]] (Some [1, 1])
     = Inr \<lparr>model = Wrapped ([0], [1]), num_classes = 2\<rparr>
   \<and> ClassifierSkLearnWrapper_predict prior_classifier
       \<lparr>model = Wrapped ([0], [1]), num_classes = 2\<rparr> [[5], [6]]
     = Inr [[1], [1]]"
  unfolding resample_example
  by (simp add: ClassifierSkLearnWrapper_predict_def model_predict_proba_def prior_classifier_def)

subsection \<open>The keyword of the weights\<close>

text \<open>
  Claim C4 at a failing input. The abstract \<^verbatim>\<open>Model.fit\<close> declares the keyword
  \<^verbatim>\<open>sample_weights\<close>, and binds a tensor passed under it. No concrete \<^verbatim>\<open>fit\<close> does:
  the two torch mixins raise \<^verbatim>\<open>TypeError\<close>, and the three adapters run with
  \<^verbatim>\<open>sample_weight\<close> left at \<^verbatim>\<open>None\<close> and forward the tensor to the wrapped estimator
  as an unknown keyword. The keyword they bind is \<^verbatim>\<open>sample_weight\<close>. With the prior
  classifier wrapped, two rows and weights 3 and 1, the call with \<^verbatim>\<open>sample_weights\<close>
  raises and the call with \<^verbatim>\<open>sample_weight\<close> fits the weighted frequencies.
\<close>

theorem sample_weights_keyword_is_not_bound:
  "bind_keyword Model_fit_signature ''sample_weights'' w = Inr ([(''sample_weights'', w)], [])
   \<and> bind_keyword TorchClassMixin_fit_signature ''sample_weights'' w = Inl TypeError
   \<and> bind_keyword TorchRegressMixin_fit_signature ''sample_weights'' w = Inl TypeError
   \<and> ClassifierSkLearnWrapper_fit_call ops_kw self x_train y_train ''sample_weights'' w
       = ClassifierSkLearnWrapper_fit (ops_kw [(''sample_weights'', w)]) self x_train y_train None
   \<and> ClassifierUnweightedSkLearnWrapper_fit_call ops_kw drawn self x_train y_train
         ''sample_weights'' w
       = ClassifierUnweightedSkLearnWrapper_fit (ops_kw [(''sample_weights'', w)]) drawn self
           x_train y_train None
   \<and> RegressionSkLearnWrapper_fit_call rops_kw rself x_train y_train ''sample_weights'' w
       = RegressionSkLearnWrapper_fit (rops_kw [(''sample_weights'', w)]) rself x_train y_train None
   \<and> ClassifierSkLearnWrapper_fit_call ops_kw self x_train y_train ''sample_weight'' w
       = ClassifierSkLearnWrapper_fit (ops_kw []) self x_train y_train (Some w)
   \<and> ClassifierSkLearnWrapper_fit_call prior_classifier_kw (ClassifierSkLearnWrapper ([], []) 2)
         [[0], [1]] [[1, 0], [0, 1]] ''sample_weights'' [3, 1]
       = Inl TypeError
   \<and> ClassifierSkLearnWrapper_fit_call prior_classifier_kw (ClassifierSkLearnWrapper ([], []) 2)
         [[0], [1]] [[1, 0], [0, 1]] ''sample_weight'' [3, 1]
       = Inr \<lparr>model = Wrapped ([0, 1], [3 / 4, 1 / 4]), num_classes = 2\<rparr>"
proof -
  have d: "class_distribution [0, 1] (Some [3, 1]) = ([0, 1], [3 / 4, 1 / 4])"
    by code_simp
  have general:
    "bind_keyword Model_fit_signature ''sample_weights'' w = Inr ([(''sample_weights'', w)], [])"
    "bind_keyword TorchClassMixin_fit_signature ''sample_weights'' w = Inl TypeError"
    "bind_keyword TorchRegressMixin_fit_signature ''sample_weights'' w = Inl TypeError"
    "bind_keyword ClassifierSkLearnWrapper_fit_signature ''sample_weights'' v
       = Inr ([], [(''sample_weights'', v)])"
    "bind_keyword ClassifierSkLearnWrapper_fit_signature ''sample_weight'' v
       = Inr ([(''sample_weight'', v)], [])"
    "bind_keyword ClassifierUnweightedSkLearnWrapper_fit_signature ''sample_weights'' w
       = Inr ([], [(''sample_weights'', w)])"
    "bind_keyword RegressionSkLearnWrapper_fit_signature ''sample_weights'' w
       = Inr ([], [(''sample_weights'', w)])" for v :: "real list"
    by (simp_all add: bind_keyword_def Model_fit_signature_def TorchClassMixin_fit_signature_def
          TorchRegressMixin_fit_signature_def ClassifierSkLearnWrapper_fit_signature_def
          ClassifierUnweightedSkLearnWrapper_fit_signature_def
          RegressionSkLearnWrapper_fit_signature_def)
  have rejected: "ClassifierSkLearnWrapper_fit (prior_classifier_kw [(''sample_weights'', [3, 1])])
         (ClassifierSkLearnWrapper ([], []) 2) [[0], [1]] [[1, 0], [0, 1]] None = Inl TypeError"
    using example_labels
    by (simp add: classifier_fit_nonempty ClassifierSkLearnWrapper_def prior_classifier_kw_def
          prior_classifier_def model_fit_def check_sample_weight_def)
  have applied: "ClassifierSkLearnWrapper_fit (prior_classifier_kw [])
         (ClassifierSkLearnWrapper ([], []) 2) [[0], [1]] [[1, 0], [0, 1]] (Some [3, 1])
       = Inr \<lparr>model = Wrapped ([0, 1], [3 / 4, 1 / 4]), num_classes = 2\<rparr>"
    using example_labels d
    by (simp add: classifier_fit_nonempty ClassifierSkLearnWrapper_def prior_classifier_kw_def
          prior_classifier_def model_fit_def check_sample_weight_def squeeze_def sw_value_def)
  show ?thesis
    by (simp add: general rejected applied ClassifierSkLearnWrapper_fit_call_def
          ClassifierUnweightedSkLearnWrapper_fit_call_def RegressionSkLearnWrapper_fit_call_def)
qed


subsection \<open>Cloning\<close>

lemma load_Inr_iff:
  "load h a = Inr (f, r, s) \<longleftrightarrow>
     a < length h \<and> r < length h \<and> h ! a = Instance f r \<and> h ! r = Part s"
  by (auto simp: load_def split: cell.splits)

lemma returned_call_at:
  "returned (call_at method h a) =
     bind_err (view h a) (\<lambda>(f, s). bind_err (method f s) (\<lambda>(f', u, out). Inr out))"
  by (auto simp: returned_def call_at_def view_def bind_err_def
           split: sum.splits prod.splits assignment.splits)

lemma call_at_cases:
  assumes "call_at method h a = Inr (h2, out)" "load h a = Inr (f, r, s)"
  obtains f' s' where "h2 = h[a := Instance f' (length h)] @ [Part s']"
    | f' s' where "h2 = h[r := Part s', a := Instance f' r]"
  using assms
  by (auto simp: call_at_def bind_err_def split: sum.splits prod.splits assignment.splits)

lemma deepcopy_Inr:
  assumes "deepcopy h a = Inr (h1, c)"
  obtains f r s where "load h a = Inr (f, r, s)"
    "h1 = h @ [Part s, Instance f (length h)]" "c = Suc (length h)"
  using assms by (auto simp: deepcopy_def bind_err_def split: sum.splits)

lemma view_after_deepcopy:
  assumes "deepcopy h a = Inr (h1, c)"
  shows "view h1 c = view h a" "view h1 a = view h a"
proof -
  from assms obtain f r s where l: "load h a = Inr (f, r, s)"
    and h1: "h1 = h @ [Part s, Instance f (length h)]" and c: "c = Suc (length h)"
    by (rule deepcopy_Inr)
  from l have facts: "a < length h" "r < length h" "h ! a = Instance f r" "h ! r = Part s"
    by (simp_all add: load_Inr_iff)
  have "load h1 c = Inr (f, length h, s)"
    unfolding load_Inr_iff h1 c by (simp add: nth_append)
  moreover have "load h1 a = Inr (f, r, s)"
    unfolding load_Inr_iff h1 using facts by (simp add: nth_append)
  ultimately show "view h1 c = view h a" "view h1 a = view h a"
    using l by (simp_all add: view_def)
qed

lemma call_on_clone_keeps_original:
  assumes "deepcopy h a = Inr (h1, c)" and "call_at method h1 c = Inr (h2, out)"
  shows "view h2 a = view h1 a"
proof -
  from assms(1) obtain f r s where l: "load h a = Inr (f, r, s)"
    and h1: "h1 = h @ [Part s, Instance f (length h)]" and c: "c = Suc (length h)"
    by (rule deepcopy_Inr)
  from l have facts: "a < length h" "r < length h" "h ! a = Instance f r" "h ! r = Part s"
    by (simp_all add: load_Inr_iff)
  have lc: "load h1 c = Inr (f, length h, s)"
    unfolding load_Inr_iff h1 c by (simp add: nth_append)
  have la: "load h1 a = Inr (f, r, s)"
    unfolding load_Inr_iff h1 using facts by (simp add: nth_append)
  have "load h2 a = Inr (f, r, s)"
    using assms(2) lc
  proof (cases rule: call_at_cases)
    case (1 f' s')
    show ?thesis
      unfolding load_Inr_iff 1 using facts by (simp add: h1 c nth_append nth_list_update)
  next
    case (2 f' s')
    show ?thesis
      unfolding load_Inr_iff 2 using facts by (simp add: h1 c nth_append nth_list_update)
  qed
  with la show ?thesis by (simp add: view_def)
qed

lemma call_on_original_keeps_clone:
  assumes "deepcopy h a = Inr (h1, c)" and "call_at method h1 a = Inr (h2, out)"
  shows "view h2 c = view h1 c"
proof -
  from assms(1) obtain f r s where l: "load h a = Inr (f, r, s)"
    and h1: "h1 = h @ [Part s, Instance f (length h)]" and c: "c = Suc (length h)"
    by (rule deepcopy_Inr)
  from l have facts: "a < length h" "r < length h" "h ! a = Instance f r" "h ! r = Part s"
    by (simp_all add: load_Inr_iff)
  have lc: "load h1 c = Inr (f, length h, s)"
    unfolding load_Inr_iff h1 c by (simp add: nth_append)
  have la: "load h1 a = Inr (f, r, s)"
    unfolding load_Inr_iff h1 using facts by (simp add: nth_append)
  have "load h2 c = Inr (f, length h, s)"
    using assms(2) la
  proof (cases rule: call_at_cases)
    case (1 f' s')
    show ?thesis
      unfolding load_Inr_iff 1 using facts by (simp add: h1 c nth_append nth_list_update)
  next
    case (2 f' s')
    show ?thesis
      unfolding load_Inr_iff 2 using facts by (simp add: h1 c nth_append nth_list_update)
  qed
  with lc show ?thesis by (simp add: view_def)
qed

text \<open>
  Claim C6. \<^verbatim>\<open>clone\<close> of a model returns a new instance that refers to a new copy of
  what the original refers to. Right after cloning, \<^verbatim>\<open>predict\<close> returns the same from
  the clone as from the original, for every input; a \<^verbatim>\<open>fit\<close> on the clone leaves what
  \<^verbatim>\<open>predict\<close> returns from the original unchanged, and a \<^verbatim>\<open>fit\<close> on the original
  leaves what \<^verbatim>\<open>predict\<close> returns from the clone unchanged. This holds for every method
  in the place of \<open>fit\<close> and of \<open>predict\<close>, whether it rebinds the attribute or changes
  the object in place, so for the methods of every class of the notebook.
\<close>

theorem clone_is_independent:
  assumes "clone h self = Inr (h1, c)"
  shows "returned (call_at predict h1 c) = returned (call_at predict h1 self)
       \<and> (call_at fit h1 c = Inr (h2, out) \<longrightarrow>
            returned (call_at predict h2 self) = returned (call_at predict h1 self))
       \<and> (call_at fit h1 self = Inr (h3, out') \<longrightarrow>
            returned (call_at predict h3 c) = returned (call_at predict h1 c))"
  using assms view_after_deepcopy [of h self h1 c]
    call_on_clone_keeps_original [of h self h1 c fit h2 out]
    call_on_original_keeps_clone [of h self h1 c fit h3 out']
  by (simp add: clone_def returned_call_at)

lemma clone_example:
  "clone [Part (Wrapped ([0, 1], [1 / 4, 3 / 4])), Instance 2 0] 1 =
     Inr ([Part (Wrapped ([0, 1], [1 / 4, 3 / 4])), Instance (2 :: nat) 0,
           Part (Wrapped ([0, 1], [1 / 4, 3 / 4 :: real])), Instance 2 2], 3)"
  by (simp add: clone_def deepcopy_def load_def)

lemma fit_method_example:
  "classifier_fit_method prior_classifier [[0], [1]] [[1, 0], [0, 1]] None 2 m =
     Inr (2, InPlace (Wrapped ([0, 1], [1 / 2, 1 / 2])), ())" if "m = Wrapped e" for m e
  using example_labels prior_examples that
  by (simp add: classifier_fit_method_def classifier_fit_model_nonempty model_fit_def
        check_sample_weight_def prior_classifier_def sw_value_def)

lemma predict_method_example:
  "classifier_predict_method prior_classifier [[5]] n (Wrapped (cs, p)) =
     Inr (n, InPlace (Wrapped (cs, p)), [p])"
  by (simp add: classifier_predict_method_def ClassifierSkLearnWrapper_predict_def
        model_predict_proba_def prior_classifier_def)

lemma fit_on_clone_example:
  "call_at (classifier_fit_method prior_classifier [[0], [1]] [[1, 0], [0, 1]] None)
     [Part (Wrapped ([0, 1], [1 / 4, 3 / 4])), Instance 2 0,
      Part (Wrapped ([0, 1], [1 / 4, 3 / 4])), Instance 2 2] 3 =
   Inr ([Part (Wrapped ([0, 1], [1 / 4, 3 / 4])), Instance 2 0,
         Part (Wrapped ([0, 1], [1 / 2, 1 / 2])), Instance 2 2], ())"
  by (simp add: call_at_def load_def fit_method_example)

lemma fit_on_original_example:
  "call_at (classifier_fit_method prior_classifier [[0], [1]] [[1, 0], [0, 1]] None)
     [Part (Wrapped ([0, 1], [1 / 4, 3 / 4])), Instance 2 0,
      Part (Wrapped ([0, 1], [1 / 4, 3 / 4])), Instance 2 2] 1 =
   Inr ([Part (Wrapped ([0, 1], [1 / 2, 1 / 2])), Instance 2 0,
         Part (Wrapped ([0, 1], [1 / 4, 3 / 4])), Instance 2 2], ())"
  by (simp add: call_at_def load_def fit_method_example)

lemma predict_example:
  "returned (call_at (classifier_predict_method prior_classifier [[5]])
     [Part (Wrapped ([0, 1], [1 / 4, 3 / 4])), Instance 2 0,
      Part (Wrapped ([0, 1], [1 / 4, 3 / 4])), Instance 2 2] 1) = Inr [[1 / 4, 3 / 4]]"
  "returned (call_at (classifier_predict_method prior_classifier [[5]])
     [Part (Wrapped ([0, 1], [1 / 4, 3 / 4])), Instance 2 0,
      Part (Wrapped ([0, 1], [1 / 2, 1 / 2])), Instance 2 2] 3) = Inr [[1 / 2, 1 / 2]]"
  by (simp_all add: returned_def call_at_def load_def predict_method_example)

theorem clone_is_independent_witness:
  "clone [Part (Wrapped ([0, 1], [1 / 4, 3 / 4])), Instance 2 0] 1 =
     Inr ([Part (Wrapped ([0, 1], [1 / 4, 3 / 4])), Instance (2 :: nat) 0,
           Part (Wrapped ([0, 1], [1 / 4, 3 / 4 :: real])), Instance 2 2], 3)
   \<and> call_at (classifier_fit_method prior_classifier [[0], [1]] [[1, 0], [0, 1]] None)
       [Part (Wrapped ([0, 1], [1 / 4, 3 / 4])), Instance 2 0,
        Part (Wrapped ([0, 1], [1 / 4, 3 / 4])), Instance 2 2] 3 =
      Inr ([Part (Wrapped ([0, 1], [1 / 4, 3 / 4])), Instance 2 0,
            Part (Wrapped ([0, 1], [1 / 2, 1 / 2])), Instance 2 2], ())
   \<and> call_at (classifier_fit_method prior_classifier [[0], [1]] [[1, 0], [0, 1]] None)
       [Part (Wrapped ([0, 1], [1 / 4, 3 / 4])), Instance 2 0,
        Part (Wrapped ([0, 1], [1 / 4, 3 / 4])), Instance 2 2] 1 =
      Inr ([Part (Wrapped ([0, 1], [1 / 2, 1 / 2])), Instance 2 0,
            Part (Wrapped ([0, 1], [1 / 4, 3 / 4])), Instance 2 2], ())
   \<and> returned (call_at (classifier_predict_method prior_classifier [[5]])
       [Part (Wrapped ([0, 1], [1 / 4, 3 / 4])), Instance 2 0,
        Part (Wrapped ([0, 1], [1 / 4, 3 / 4])), Instance 2 2] 3) = Inr [[1 / 4, 3 / 4]]
   \<and> returned (call_at (classifier_predict_method prior_classifier [[5]])
       [Part (Wrapped ([0, 1], [1 / 4, 3 / 4])), Instance 2 0,
        Part (Wrapped ([0, 1], [1 / 2, 1 / 2])), Instance 2 2] 1) = Inr [[1 / 4, 3 / 4]]
   \<and> returned (call_at (classifier_predict_method prior_classifier [[5]])
       [Part (Wrapped ([0, 1], [1 / 2, 1 / 2])), Instance 2 0,
        Part (Wrapped ([0, 1], [1 / 4, 3 / 4])), Instance 2 2] 3) = Inr [[1 / 4, 3 / 4]]"
  using clone_is_independent [OF clone_example,
      of "classifier_predict_method prior_classifier [[5]]"
         "classifier_fit_method prior_classifier [[0], [1]] [[1, 0], [0, 1]] None"
         "[Part (Wrapped ([0, 1], [1 / 4, 3 / 4])), Instance 2 0,
           Part (Wrapped ([0, 1], [1 / 2, 1 / 2])), Instance 2 2]" "()"
         "[Part (Wrapped ([0, 1], [1 / 2, 1 / 2])), Instance 2 0,
           Part (Wrapped ([0, 1], [1 / 4, 3 / 4])), Instance 2 2]" "()"]
    clone_example fit_on_clone_example fit_on_original_example predict_example(1)
  by simp

text \<open>
  The depth of the copy is what matters: after \<^verbatim>\<open>copy.copy\<close> a \<^verbatim>\<open>fit\<close> in place on
  the copy changes what the original predicts.
\<close>

lemma shallow_copy_shares_the_estimator:
  "shallow_copy [Part (Wrapped ([0, 1], [1 / 4, 3 / 4 :: real])), Instance (2 :: nat) 0] 1 =
     Inr ([Part (Wrapped ([0, 1], [1 / 4, 3 / 4])), Instance 2 0, Instance 2 0], 2)
   \<and> call_at (classifier_fit_method prior_classifier [[0], [1]] [[1, 0], [0, 1]] None)
       [Part (Wrapped ([0, 1], [1 / 4, 3 / 4])), Instance 2 0, Instance 2 0] 2 =
      Inr ([Part (Wrapped ([0, 1], [1 / 2, 1 / 2])), Instance 2 0, Instance 2 0], ())
   \<and> returned (call_at (classifier_predict_method prior_classifier [[5]])
       [Part (Wrapped ([0, 1], [1 / 2, 1 / 2])), Instance 2 0, Instance 2 0] 1)
      = Inr [[1 / 2, 1 / 2]]"
  by (simp add: shallow_copy_def returned_def call_at_def load_def fit_method_example
        predict_method_example)


end
